theory Spec2Isabelle
  imports Complex_Main "HOL-Library.Multiset" "HOL-Library.Sublist"
begin

section \<open>Python values shared by the four scripts\<close>

text \<open>
  The pipeline consists of four scripts, each a batch transformation of a pandas table.
  A table is a list of rows in index order; a row is a record with one field per column.
  A cell that pandas reads as NaN or None is \<open>None\<close>. Exceptions are values of type
  \<open>exn\<close>; a function that can raise returns \<open>exn + 'a\<close> with \<open>Inl\<close> the exception.
\<close>

datatype exn =
    KeyError string
  | TypeError string
  | IndexError string
  | SystemExit int

text \<open>\<open>str.lower\<close> on ASCII text.\<close>

definition lower_char :: "char \<Rightarrow> char" where
  "lower_char c =
     (case map_of (zip ''ABCDEFGHIJKLMNOPQRSTUVWXYZ'' ''abcdefghijklmnopqrstuvwxyz'') c of
        None \<Rightarrow> c
      | Some d \<Rightarrow> d)"

definition lower :: "string \<Rightarrow> string" where
  "lower s = map lower_char s"

text \<open>\<open>s.replace(old, new)\<close> for a one-character \<open>old\<close>.\<close>

definition replace_char :: "char \<Rightarrow> string \<Rightarrow> string \<Rightarrow> string" where
  "replace_char old new s = concat (map (\<lambda>c. if c = old then new else [c]) s)"

text \<open>Python truthiness of an optional string: \<open>None\<close> and \<open>''\<close> are false.\<close>

definition truthy :: "string option \<Rightarrow> bool" where
  "truthy v = (case v of None \<Rightarrow> False | Some s \<Rightarrow> s \<noteq> [])"

section \<open>Data model\<close>

text \<open>One dict of the static catalogs in \<open>company_research.py\<close>.\<close>

record raw_company =
  raw_name :: string
  raw_industry :: string
  raw_country :: string
  raw_data_source :: string
  raw_website :: string

definition raw :: "string \<Rightarrow> string \<Rightarrow> string \<Rightarrow> string \<Rightarrow> string \<Rightarrow> raw_company" where
  "raw n i c d w =
     \<lparr>raw_name = n, raw_industry = i, raw_country = c, raw_data_source = d, raw_website = w\<rparr>"

text \<open>
  A row of the company table, with the thirteen columns of \<open>required_columns\<close> and the
  two source columns that \<open>verify_hiring_status\<close> adds. The hiring flags are strings
  (\<open>'Yes'\<close>, \<open>'No'\<close>, \<open>'Unknown'\<close>); the scripts only ever compare them with \<open>'Yes'\<close>.
\<close>

record company =
  company_id :: int
  company_name :: "string option"
  industry :: "string option"
  country :: "string option"
  company_size :: "rat option"
  annual_revenue :: "rat option"
  company_website :: "string option"
  linkedin_url :: "string option"
  actively_hiring :: string
  hiring_devops :: string
  hiring_developers :: string
  data_source :: "string option"
  last_verified :: string
  devops_source :: "string option"
  software_dev_source :: "string option"

section \<open>Collector (\<open>company_research.py\<close>)\<close>

subsection \<open>The static catalogs\<close>

definition search_asx_companies :: "raw_company list" where
  "search_asx_companies = [
    raw ''Commonwealth Bank'' ''Finance'' ''Australia'' ''ASX'' ''commbank.com.au'',
    raw ''Westpac Banking Corporation'' ''Finance'' ''Australia'' ''ASX'' ''westpac.com.au'',
    raw ''National Australia Bank'' ''Finance'' ''Australia'' ''ASX'' ''nab.com.au'',
    raw ''ANZ Banking Group'' ''Finance'' ''Australia'' ''ASX'' ''anz.com.au'',
    raw ''Macquarie Group'' ''Finance'' ''Australia'' ''ASX'' ''macquarie.com'',
    raw ''QBE Insurance Group'' ''Insurance'' ''Australia'' ''ASX'' ''qbe.com'',
    raw ''Insurance Australia Group'' ''Insurance'' ''Australia'' ''ASX'' ''iag.com.au'',
    raw ''Suncorp Group'' ''Both'' ''Australia'' ''ASX'' ''suncorp.com.au'',
    raw ''AMP Limited'' ''Both'' ''Australia'' ''ASX'' ''amp.com.au'',
    raw ''Medibank Private'' ''Insurance'' ''Australia'' ''ASX'' ''medibank.com.au'']"

definition search_nzx_companies :: "raw_company list" where
  "search_nzx_companies = [
    raw ''Heartland Group Holdings'' ''Finance'' ''New Zealand'' ''NZX'' ''heartland.co.nz'',
    raw ''Tower Limited'' ''Insurance'' ''New Zealand'' ''NZX'' ''tower.co.nz'',
    raw ''Westpac Banking Corporation'' ''Finance'' ''New Zealand'' ''NZX'' ''westpac.co.nz'',
    raw ''ANZ Bank New Zealand'' ''Finance'' ''New Zealand'' ''NZX'' ''anz.co.nz'',
    raw ''Kiwibank'' ''Finance'' ''New Zealand'' ''NZX'' ''kiwibank.co.nz'']"

definition get_sample_australia_finance_companies :: "raw_company list" where
  "get_sample_australia_finance_companies = [
    raw ''Commonwealth Bank of Australia'' ''Finance'' ''Australia'' ''Sample Data'' ''commbank.com.au'',
    raw ''Westpac Banking Corporation'' ''Finance'' ''Australia'' ''Sample Data'' ''westpac.com.au'',
    raw ''National Australia Bank'' ''Finance'' ''Australia'' ''Sample Data'' ''nab.com.au'',
    raw ''Australia and New Zealand Banking Group'' ''Finance'' ''Australia'' ''Sample Data'' ''anz.com.au'',
    raw ''Macquarie Group'' ''Finance'' ''Australia'' ''Sample Data'' ''macquarie.com'',
    raw ''Suncorp Group'' ''Finance'' ''Australia'' ''Sample Data'' ''suncorp.com.au'',
    raw ''Bank of Queensland'' ''Finance'' ''Australia'' ''Sample Data'' ''boq.com.au'',
    raw ''Bendigo and Adelaide Bank'' ''Finance'' ''Australia'' ''Sample Data'' ''bendigobank.com.au'',
    raw ''AMP Limited'' ''Finance'' ''Australia'' ''Sample Data'' ''amp.com.au'',
    raw ''Judo Bank'' ''Finance'' ''Australia'' ''Sample Data'' ''judo.bank'',
    raw ''Tyro Payments'' ''Finance'' ''Australia'' ''Sample Data'' ''tyro.com'',
    raw ''MyState Limited'' ''Finance'' ''Australia'' ''Sample Data'' ''mystate.com.au'',
    raw ''Xinja Bank'' ''Finance'' ''Australia'' ''Sample Data'' ''xinja.com.au'',
    raw ''86 400'' ''Finance'' ''Australia'' ''Sample Data'' ''86400.com.au'',
    raw ''Volt Bank'' ''Finance'' ''Australia'' ''Sample Data'' ''voltbank.com.au'',
    raw ''Heritage Bank'' ''Finance'' ''Australia'' ''Sample Data'' ''heritage.com.au'',
    raw ''Teachers Mutual Bank'' ''Finance'' ''Australia'' ''Sample Data'' ''tmbank.com.au'',
    raw ''Greater Bank'' ''Finance'' ''Australia'' ''Sample Data'' ''greater.com.au'',
    raw ''IMB Bank'' ''Finance'' ''Australia'' ''Sample Data'' ''imb.com.au'',
    raw ''Beyond Bank Australia'' ''Finance'' ''Australia'' ''Sample Data'' ''beyondbank.com.au'']"

definition get_sample_australia_insurance_companies :: "raw_company list" where
  "get_sample_australia_insurance_companies = [
    raw ''QBE Insurance Group'' ''Insurance'' ''Australia'' ''Sample Data'' ''qbe.com'',
    raw ''Insurance Australia Group'' ''Insurance'' ''Australia'' ''Sample Data'' ''iag.com.au'',
    raw ''Suncorp Insurance'' ''Insurance'' ''Australia'' ''Sample Data'' ''suncorp.com.au'',
    raw ''Allianz Australia'' ''Insurance'' ''Australia'' ''Sample Data'' ''allianz.com.au'',
    raw ''Youi Insurance'' ''Insurance'' ''Australia'' ''Sample Data'' ''youi.com.au'',
    raw ''Budget Direct'' ''Insurance'' ''Australia'' ''Sample Data'' ''budgetdirect.com.au'',
    raw ''AAMI Insurance'' ''Insurance'' ''Australia'' ''Sample Data'' ''aami.com.au'',
    raw ''NRMA Insurance'' ''Insurance'' ''Australia'' ''Sample Data'' ''nrma.com.au'',
    raw ''Medibank Private'' ''Insurance'' ''Australia'' ''Sample Data'' ''medibank.com.au'',
    raw ''Bupa Australia'' ''Insurance'' ''Australia'' ''Sample Data'' ''bupa.com.au'',
    raw ''HCF'' ''Insurance'' ''Australia'' ''Sample Data'' ''hcf.com.au'',
    raw ''NIB Health Funds'' ''Insurance'' ''Australia'' ''Sample Data'' ''nib.com.au'',
    raw ''AIA Australia'' ''Insurance'' ''Australia'' ''Sample Data'' ''aia.com.au'',
    raw ''TAL Life Limited'' ''Insurance'' ''Australia'' ''Sample Data'' ''tal.com.au'',
    raw ''Zurich Australia'' ''Insurance'' ''Australia'' ''Sample Data'' ''zurich.com.au'',
    raw ''MetLife Insurance Limited'' ''Insurance'' ''Australia'' ''Sample Data'' ''metlife.com.au'',
    raw ''Chubb Insurance Australia'' ''Insurance'' ''Australia'' ''Sample Data'' ''chubb.com/au'',
    raw ''RACQ Insurance'' ''Insurance'' ''Australia'' ''Sample Data'' ''racq.com.au/insurance'',
    raw ''RACV Insurance'' ''Insurance'' ''Australia'' ''Sample Data'' ''racv.com.au/insurance'',
    raw ''Hollard Insurance'' ''Insurance'' ''Australia'' ''Sample Data'' ''hollard.com.au'']"

definition get_sample_nz_finance_companies :: "raw_company list" where
  "get_sample_nz_finance_companies = [
    raw ''ANZ Bank New Zealand'' ''Finance'' ''New Zealand'' ''Sample Data'' ''anz.co.nz'',
    raw ''Westpac New Zealand'' ''Finance'' ''New Zealand'' ''Sample Data'' ''westpac.co.nz'',
    raw ''Bank of New Zealand'' ''Finance'' ''New Zealand'' ''Sample Data'' ''bnz.co.nz'',
    raw ''ASB Bank'' ''Finance'' ''New Zealand'' ''Sample Data'' ''asb.co.nz'',
    raw ''Kiwibank'' ''Finance'' ''New Zealand'' ''Sample Data'' ''kiwibank.co.nz'',
    raw ''TSB Bank'' ''Finance'' ''New Zealand'' ''Sample Data'' ''tsb.co.nz'',
    raw ''Heartland Bank'' ''Finance'' ''New Zealand'' ''Sample Data'' ''heartland.co.nz'',
    raw ''The Co-operative Bank'' ''Finance'' ''New Zealand'' ''Sample Data'' ''co-operativebank.co.nz'',
    raw ''SBS Bank'' ''Finance'' ''New Zealand'' ''Sample Data'' ''sbsbank.co.nz'',
    raw ''Rabobank New Zealand'' ''Finance'' ''New Zealand'' ''Sample Data'' ''rabobank.co.nz'',
    raw ''HSBC New Zealand'' ''Finance'' ''New Zealand'' ''Sample Data'' ''hsbc.co.nz'',
    raw ''China Construction Bank NZ'' ''Finance'' ''New Zealand'' ''Sample Data'' ''nz.ccb.com'',
    raw ''Industrial and Commercial Bank of China NZ'' ''Finance'' ''New Zealand'' ''Sample Data'' ''icbcnz.com'',
    raw ''Bank of China New Zealand'' ''Finance'' ''New Zealand'' ''Sample Data'' ''bankofchina.com/nz'',
    raw ''Credit Union Baywide'' ''Finance'' ''New Zealand'' ''Sample Data'' ''nzcubaywide.co.nz'']"

definition get_sample_nz_insurance_companies :: "raw_company list" where
  "get_sample_nz_insurance_companies = [
    raw ''AA Insurance'' ''Insurance'' ''New Zealand'' ''Sample Data'' ''aainsurance.co.nz'',
    raw ''Tower Insurance'' ''Insurance'' ''New Zealand'' ''Sample Data'' ''tower.co.nz'',
    raw ''IAG New Zealand'' ''Insurance'' ''New Zealand'' ''Sample Data'' ''iag.co.nz'',
    raw ''FMG Insurance'' ''Insurance'' ''New Zealand'' ''Sample Data'' ''fmg.co.nz'',
    raw ''AMI Insurance'' ''Insurance'' ''New Zealand'' ''Sample Data'' ''ami.co.nz'',
    raw ''State Insurance'' ''Insurance'' ''New Zealand'' ''Sample Data'' ''state.co.nz'',
    raw ''Medical Assurance Society'' ''Insurance'' ''New Zealand'' ''Sample Data'' ''mas.co.nz'',
    raw ''Vero Insurance'' ''Insurance'' ''New Zealand'' ''Sample Data'' ''vero.co.nz'',
    raw ''Southern Cross Health Society'' ''Insurance'' ''New Zealand'' ''Sample Data'' ''southerncross.co.nz'',
    raw ''AIA New Zealand'' ''Insurance'' ''New Zealand'' ''Sample Data'' ''aia.co.nz'',
    raw ''Partners Life'' ''Insurance'' ''New Zealand'' ''Sample Data'' ''partnerslife.co.nz'',
    raw ''Fidelity Life'' ''Insurance'' ''New Zealand'' ''Sample Data'' ''fidelitylife.co.nz'',
    raw ''Cigna Life Insurance'' ''Insurance'' ''New Zealand'' ''Sample Data'' ''cigna.co.nz'',
    raw ''Asteron Life'' ''Insurance'' ''New Zealand'' ''Sample Data'' ''asteronlife.co.nz'',
    raw ''Accuro Health Insurance'' ''Insurance'' ''New Zealand'' ''Sample Data'' ''accuro.co.nz'']"

subsection \<open>\<open>main\<close>\<close>

text \<open>
  \<open>all_companies\<close> in the order in which \<open>main\<close> extends it.
\<close>

definition all_companies :: "raw_company list" where
  "all_companies =
     search_asx_companies @ search_nzx_companies @
     get_sample_australia_finance_companies @ get_sample_australia_insurance_companies @
     get_sample_nz_finance_companies @ get_sample_nz_insurance_companies"

text \<open>
  \<open>pd.DataFrame(all_companies)\<close> followed by the default columns: the id column is still
  to be filled, \<open>today\<close> is \<open>datetime.now().strftime('%Y-%m-%d')\<close>. The columns that no dict
  has (\<open>company_size\<close>, \<open>annual_revenue\<close>, \<open>linkedin_url\<close>) are the ones the
  \<open>required_columns\<close> loop creates as \<open>None\<close>.
\<close>

definition to_row :: "string \<Rightarrow> raw_company \<Rightarrow> company" where
  "to_row today r =
     \<lparr>company_id = 0,
      company_name = Some (raw_name r),
      industry = Some (raw_industry r),
      country = Some (raw_country r),
      company_size = None,
      annual_revenue = None,
      company_website = Some (raw_website r),
      linkedin_url = None,
      actively_hiring = ''Unknown'',
      hiring_devops = ''Unknown'',
      hiring_developers = ''Unknown'',
      data_source = Some (raw_data_source r),
      last_verified = today,
      devops_source = None,
      software_dev_source = None\<rparr>"

text \<open>\<open>collected_df['company_id'] = range(1, len(collected_df) + 1)\<close>.\<close>

definition assign_company_ids :: "company list \<Rightarrow> company list" where
  "assign_company_ids rows =
     map (\<lambda>(r, i). r\<lparr>company_id := i\<rparr>) (zip rows [1 .. int (length rows)])"

text \<open>
  \<open>DataFrame.drop_duplicates(subset=[col])\<close> with the default \<open>keep='first'\<close>: a row is
  dropped when an earlier row has the same value in the column; the order of the rows
  that stay is unchanged.
\<close>

fun drop_dups_from :: "('a \<Rightarrow> 'k) \<Rightarrow> 'k list \<Rightarrow> 'a list \<Rightarrow> 'a list" where
  "drop_dups_from key seen [] = []"
| "drop_dups_from key seen (x # xs) =
     (if key x \<in> set seen then drop_dups_from key seen xs
      else x # drop_dups_from key (key x # seen) xs)"

definition drop_duplicates :: "('a \<Rightarrow> 'k) \<Rightarrow> 'a list \<Rightarrow> 'a list" where
  "drop_duplicates key rows = drop_dups_from key [] rows"

text \<open>
  \<open>enrich_with_company_websites\<close> and \<open>enrich_with_linkedin\<close> fill a missing cell from the
  company name. A name that is not a string makes \<open>.lower()\<close> raise inside the \<open>try\<close>; the
  handler prints and the row stays as it is.
\<close>

definition enrich_with_company_websites :: "company list \<Rightarrow> company list" where
  "enrich_with_company_websites rows =
     map (\<lambda>r. if company_website r = None
               then (case company_name r of
                       None \<Rightarrow> r
                     | Some n \<Rightarrow>
                         r\<lparr>company_website :=
                             Some (''https://www.'' @ replace_char CHR '' '' [] (lower n) @ ''.com'')\<rparr>)
               else r) rows"

definition enrich_with_linkedin :: "company list \<Rightarrow> company list" where
  "enrich_with_linkedin rows =
     map (\<lambda>r. if linkedin_url r = None
               then (case company_name r of
                       None \<Rightarrow> r
                     | Some n \<Rightarrow>
                         r\<lparr>linkedin_url :=
                             Some (''https://www.linkedin.com/company/'' @
                                   replace_char CHR ''&'' ''and''
                                     (replace_char CHR '' '' ''-'' (lower n)))\<rparr>)
               else r) rows"

text \<open>
  The table that \<open>main\<close> saves. An empty \<open>all_companies\<close> gives a frame without a
  \<open>company_name\<close> column, on which \<open>drop_duplicates\<close> raises \<open>KeyError\<close>; \<open>main\<close> catches it
  and nothing is saved.
\<close>

definition collected_df :: "string \<Rightarrow> raw_company list \<Rightarrow> exn + company list" where
  "collected_df today companies =
     (if companies = [] then Inl (KeyError ''company_name'')
      else Inr (enrich_with_linkedin (enrich_with_company_websites
             (drop_duplicates company_name
                (assign_company_ids (map (to_row today) companies))))))"

text \<open>The id column of the saved table (empty when nothing is saved).\<close>

definition collected_ids :: "string \<Rightarrow> raw_company list \<Rightarrow> int list" where
  "collected_ids today companies =
     (case collected_df today companies of Inl e \<Rightarrow> [] | Inr rows \<Rightarrow> map company_id rows)"

section \<open>Status Checker (\<open>hiring_verification.py\<close>)\<close>

text \<open>
  The dict returned by \<open>check_company_careers_page\<close>, \<open>check_linkedin_jobs\<close> and
  \<open>check_seek_jobs\<close>. The three functions draw random booleans (mock mode) or fetch web
  pages; what they return is an input of the model.
\<close>

record check_result =
  has_devops :: bool
  has_software_dev :: bool
  result_source :: "string option"

text \<open>The careers-page block of the loop body; it runs only for a truthy \<open>company_url\<close>.\<close>

definition check_careers :: "check_result \<Rightarrow> company \<Rightarrow> company" where
  "check_careers careers_result r =
     (if truthy (company_website r)
      then
        (let r1 = (if has_devops careers_result
                   then r\<lparr>hiring_devops := ''Yes'',
                          devops_source := result_source careers_result\<rparr>
                   else r)
         in (if has_software_dev careers_result
             then r1\<lparr>hiring_developers := ''Yes'',
                     software_dev_source := result_source careers_result\<rparr>
             else r1))
      else r)"

text \<open>
  The LinkedIn block and the Seek block have the same shape: they run only while one of
  the two flags is not \<open>'Yes'\<close>, and set a flag only when it is not \<open>'Yes'\<close> already.
\<close>

definition check_further :: "check_result \<Rightarrow> company \<Rightarrow> company" where
  "check_further res r =
     (if hiring_devops r \<noteq> ''Yes'' \<or> hiring_developers r \<noteq> ''Yes''
      then
        (let r1 = (if has_devops res \<and> hiring_devops r \<noteq> ''Yes''
                   then r\<lparr>hiring_devops := ''Yes'', devops_source := result_source res\<rparr>
                   else r)
         in (if has_software_dev res \<and> hiring_developers r1 \<noteq> ''Yes''
             then r1\<lparr>hiring_developers := ''Yes'',
                     software_dev_source := result_source res\<rparr>
             else r1))
      else r)"

definition check_linkedin :: "check_result \<Rightarrow> company \<Rightarrow> company" where
  "check_linkedin linkedin_result r = check_further linkedin_result r"

definition check_seek :: "check_result \<Rightarrow> company \<Rightarrow> company" where
  "check_seek seek_result r = check_further seek_result r"

text \<open>"Mark as 'No' if still unknown after all checks".\<close>

definition mark_no :: "company \<Rightarrow> company" where
  "mark_no r =
     (let r1 = (if hiring_devops r \<noteq> ''Yes'' then r\<lparr>hiring_devops := ''No''\<rparr> else r)
      in (if hiring_developers r1 \<noteq> ''Yes'' then r1\<lparr>hiring_developers := ''No''\<rparr> else r1))"

definition set_actively_hiring :: "company \<Rightarrow> company" where
  "set_actively_hiring r =
     (if hiring_devops r = ''Yes'' \<or> hiring_developers r = ''Yes''
      then r\<lparr>actively_hiring := ''Yes''\<rparr>
      else r\<lparr>actively_hiring := ''No''\<rparr>)"

text \<open>
  The states of one row during one iteration of the loop: on entry, after the careers
  page, after LinkedIn, after Seek, after the fill-in, and at the end of the iteration.
\<close>

definition verify_trace ::
  "check_result \<Rightarrow> check_result \<Rightarrow> check_result \<Rightarrow> company \<Rightarrow> company list" where
  "verify_trace careers_result linkedin_result seek_result r =
     (let s1 = check_careers careers_result r;
          s2 = check_linkedin linkedin_result s1;
          s3 = check_seek seek_result s2;
          s4 = mark_no s3;
          s5 = set_actively_hiring s4
      in [r, s1, s2, s3, s4, s5])"

definition verify_row ::
  "check_result \<Rightarrow> check_result \<Rightarrow> check_result \<Rightarrow> company \<Rightarrow> company" where
  "verify_row careers_result linkedin_result seek_result r =
     last (verify_trace careers_result linkedin_result seek_result r)"

text \<open>
  \<open>verify_hiring_status\<close>: the two source columns are reset, then every row is checked;
  \<open>careers i\<close>, \<open>linkedin i\<close> and \<open>seek i\<close> are what the three sources answer for the row
  at position \<open>i\<close>.
\<close>

definition verify_hiring_status ::
  "(nat \<Rightarrow> check_result) \<Rightarrow> (nat \<Rightarrow> check_result) \<Rightarrow> (nat \<Rightarrow> check_result) \<Rightarrow>
   company list \<Rightarrow> company list" where
  "verify_hiring_status careers linkedin seek companies_df =
     map (\<lambda>(i, r). verify_row (careers i) (linkedin i) (seek i)
                      (r\<lparr>devops_source := None, software_dev_source := None\<rparr>))
         (enumerate 0 companies_df)"

text \<open>A flag that is \<open>'Yes'\<close> in the state \<open>a\<close> is \<open>'Yes'\<close> in the state \<open>b\<close>.\<close>

definition keeps_yes :: "company \<Rightarrow> company \<Rightarrow> bool" where
  "keeps_yes a b =
     ((hiring_devops a = ''Yes'' \<longrightarrow> hiring_devops b = ''Yes'') \<and>
      (hiring_developers a = ''Yes'' \<longrightarrow> hiring_developers b = ''Yes''))"

section \<open>Contact Finder (\<open>contact_enrichment.py\<close>)\<close>

subsection \<open>The pre-filter\<close>

text \<open>
  \<open>DataFrame.sort_values(column, ascending=False)\<close> is pandas code; it is a parameter
  \<open>sort_values\<close> of the functions that call it, applied to the column and the table.
  The company table always has the columns \<open>company_size\<close> and \<open>annual_revenue\<close>, so
  the tests \<open>'company_size' in hiring_df.columns\<close> are true; \<open>isna().all()\<close> is
  \<^const>\<open>list_all\<close> over the column.
\<close>

definition is_hiring :: "company \<Rightarrow> bool" where
  "is_hiring r =
     (actively_hiring r = ''Yes'' \<and> (hiring_devops r = ''Yes'' \<or> hiring_developers r = ''Yes''))"

definition filter_actively_hiring_companies ::
  "((company \<Rightarrow> rat option) \<Rightarrow> company list \<Rightarrow> company list) \<Rightarrow> company list \<Rightarrow> company list" where
  "filter_actively_hiring_companies sort_values companies_df =
     (let hiring_df = filter is_hiring companies_df
      in if length hiring_df < 100 then hiring_df
         else
           (let sorted_df =
                  (if \<not> list_all (\<lambda>r. company_size r = None) hiring_df
                   then sort_values company_size hiring_df
                   else if \<not> list_all (\<lambda>r. annual_revenue r = None) hiring_df
                   then sort_values annual_revenue hiring_df
                   else hiring_df)
            in take 100 sorted_df))"

subsection \<open>Candidates and contact rows\<close>

text \<open>
  A dict returned by one of the two finders. The placeholder and the company-site finder
  of the real branch have no \<open>linkedin_url\<close> key; \<open>exec.get('linkedin_url', None)\<close> reads
  it as \<open>None\<close>.
\<close>

record candidate =
  cand_name :: string
  cand_title :: string
  cand_linkedin_url :: "string option"
  cand_source :: string

text \<open>A row of \<open>executives_df\<close>.\<close>

record executive =
  exec_company_id :: int
  executive_name :: string
  executive_title :: string
  exec_linkedin_url :: "string option"
  email :: "string option"
  phone :: "string option"
  source :: string
  verification_status :: string

text \<open>
  What the finders and the random draws return while one company is processed:
  the two finders' lists, the index \<open>random.choice\<close> picks among the six patterns, and for
  the candidate at position \<open>i\<close> the answers of \<open>verify_email_exists\<close> and
  \<open>find_phone_number\<close>.
\<close>

record lookups =
  linkedin_found :: "candidate list"
  website_found :: "candidate list"
  pattern_pick :: nat
  email_exists :: "nat \<Rightarrow> bool"
  phone_found :: "nat \<Rightarrow> string option"

subsection \<open>String functions\<close>

text \<open>\<open>url.split('//')\<close>: the pieces between non-overlapping occurrences, left to right.\<close>

fun split_slashes :: "string \<Rightarrow> string \<Rightarrow> string list" where
  "split_slashes cur [] = [rev cur]"
| "split_slashes cur [c] = [rev (c # cur)]"
| "split_slashes cur (a # b # s) =
     (if a = CHR ''/'' \<and> b = CHR ''/'' then rev cur # split_slashes [] s
      else split_slashes (a # cur) (b # s))"

text \<open>\<open>str.startswith\<close> is \<^const>\<open>prefix\<close>; \<open>piece.split('/')[0]\<close> is the text before the first slash.\<close>

definition extract_domain_from_url :: "string option \<Rightarrow> string option" where
  "extract_domain_from_url url =
     (case url of
        None \<Rightarrow> None
      | Some u \<Rightarrow>
          (let u1 = (if \<not> (prefix ''http://'' u \<or> prefix ''https://'' u)
                     then ''https://'' @ u else u);
               parsed_url = takeWhile (\<lambda>c. c \<noteq> CHR ''/'') (last (split_slashes [] u1))
           in Some (if prefix ''www.'' parsed_url then drop 4 parsed_url else parsed_url)))"

text \<open>\<open>template.format(arg)\<close> for a template with one \<open>{}\<close>.\<close>

fun format1 :: "string \<Rightarrow> string \<Rightarrow> string" where
  "format1 [] arg = []"
| "format1 [c] arg = [c]"
| "format1 (a # b # s) arg =
     (if a = CHR ''{'' \<and> b = CHR ''}'' then arg @ s else a # format1 (b # s) arg)"

definition common_patterns :: "string list" where
  "common_patterns =
     [''first.last@'' @ ''{}'', ''firstlast@'' @ ''{}'', ''first_last@'' @ ''{}'',
      ''flast@'' @ ''{}'', ''first.l@'' @ ''{}'', ''f.last@'' @ ''{}'']"

text \<open>\<open>random.choice(xs)\<close> with the draw \<open>pick\<close>.\<close>

definition random_choice :: "'a list \<Rightarrow> nat \<Rightarrow> 'a" where
  "random_choice xs pick = xs ! (pick mod length xs)"

definition discover_email_pattern :: "string \<Rightarrow> nat \<Rightarrow> string" where
  "discover_email_pattern company_domain pick =
     format1 (random_choice common_patterns pick) company_domain"

text \<open>
  \<open>generate_email\<close>. \<open>first[0]\<close> and \<open>last[0]\<close> raise \<open>IndexError\<close> on an empty name; the
  branches are tried in the order of the \<open>if\<close>/\<open>elif\<close> chain.
\<close>

definition generate_email ::
  "string \<Rightarrow> string \<Rightarrow> string \<Rightarrow> string option \<Rightarrow> exn + string" where
  "generate_email first_name last_name domain pattern =
     (let pat = (case pattern of
                   None \<Rightarrow> format1 (''first.last@'' @ ''{}'') domain
                 | Some p \<Rightarrow> if p = [] then format1 (''first.last@'' @ ''{}'') domain else p);
          first = lower first_name;
          last = lower last_name
      in if pat = format1 (''first.last@'' @ ''{}'') domain
           then Inr (first @ ''.'' @ last @ ''@'' @ domain)
         else if pat = format1 (''firstlast@'' @ ''{}'') domain
           then Inr (first @ last @ ''@'' @ domain)
         else if pat = format1 (''first_last@'' @ ''{}'') domain
           then Inr (first @ ''_'' @ last @ ''@'' @ domain)
         else if pat = format1 (''flast@'' @ ''{}'') domain
           then (case first of
                   [] \<Rightarrow> Inl (IndexError ''string index out of range'')
                 | f # _ \<Rightarrow> Inr (f # last @ ''@'' @ domain))
         else if pat = format1 (''first.l@'' @ ''{}'') domain
           then (case last of
                   [] \<Rightarrow> Inl (IndexError ''string index out of range'')
                 | l # _ \<Rightarrow> Inr (first @ ''.'' @ [l] @ ''@'' @ domain))
         else if pat = format1 (''f.last@'' @ ''{}'') domain
           then (case first of
                   [] \<Rightarrow> Inl (IndexError ''string index out of range'')
                 | f # _ \<Rightarrow> Inr (f # ''.'' @ last @ ''@'' @ domain))
         else Inr (first @ ''.'' @ last @ ''@'' @ domain))"

text \<open>
  The characters below U+0100 that Python counts as whitespace: 9 to 13, 28 to 32, U+0085
  and U+00A0. \<open>str.split()\<close> without argument returns the maximal runs of characters
  that are not whitespace.
\<close>

definition is_space :: "char \<Rightarrow> bool" where
  "is_space c = ((of_char c :: nat) \<in> {9, 10, 11, 12, 13, 28, 29, 30, 31, 32, 133, 160})"

fun split_words :: "string \<Rightarrow> string \<Rightarrow> string list" where
  "split_words cur [] = (if cur = [] then [] else [rev cur])"
| "split_words cur (c # s) =
     (if is_space c
      then (if cur = [] then split_words [] s else rev cur # split_words [] s)
      else split_words (c # cur) s)"

definition split :: "string \<Rightarrow> string list" where
  "split s = split_words [] s"

subsection \<open>\<open>enrich_contacts\<close>\<close>

text \<open>"Combine executives from both sources, preferring LinkedIn if duplicate names".\<close>

definition combine_execs :: "candidate list \<Rightarrow> candidate list \<Rightarrow> candidate list" where
  "combine_execs linkedin_execs website_execs =
     linkedin_execs @
     filter (\<lambda>e. lower (cand_name e) \<notin> set (map (\<lambda>l. lower (cand_name l)) linkedin_execs))
            website_execs"

definition placeholder :: candidate where
  "placeholder =
     \<lparr>cand_name = ''Technology Decision Maker'',
      cand_title = ''CTO or equivalent'',
      cand_linkedin_url = None,
      cand_source = ''Placeholder - requires manual research''\<rparr>"

definition all_execs_of :: "lookups \<Rightarrow> company \<Rightarrow> candidate list" where
  "all_execs_of lk row =
     (let linkedin_execs = linkedin_found lk;
          website_execs = (if truthy (company_website row) then website_found lk else []);
          all_execs = combine_execs linkedin_execs website_execs
      in if all_execs = [] then [placeholder] else all_execs)"

text \<open>
  The body of the loop over \<open>all_execs\<close> for the candidate at position \<open>i\<close>: no row for
  the name \<open>'Unknown'\<close> or a name of fewer than two words, one row otherwise.
\<close>

definition process_exec ::
  "lookups \<Rightarrow> company \<Rightarrow> string option \<Rightarrow> string option \<Rightarrow> nat \<Rightarrow> candidate \<Rightarrow>
   exn + executive list" where
  "process_exec lk row company_domain email_pattern i ex =
     (let exec_name = cand_name ex
      in if exec_name = ''Unknown'' then Inr []
         else
           (let name_parts = split exec_name
            in if length name_parts \<ge> 2
               then
                 (let first_name = hd name_parts;
                      last_name = last name_parts;
                      new_row = (\<lambda>em status.
                        \<lparr>exec_company_id = company_id row,
                         executive_name = exec_name,
                         executive_title = cand_title ex,
                         exec_linkedin_url = cand_linkedin_url ex,
                         email = em,
                         phone = phone_found lk i,
                         source = cand_source ex,
                         verification_status = status\<rparr>)
                  in if truthy company_domain \<and> truthy email_pattern
                     then
                       (case generate_email first_name last_name (the company_domain)
                               email_pattern of
                          Inl e \<Rightarrow> Inl e
                        | Inr em \<Rightarrow>
                            Inr [new_row (Some em)
                                   (if email_exists lk i then ''Domain MX Verified''
                                    else ''Not Verified'')])
                     else Inr [new_row None ''Not Verified''])
               else Inr []))"

fun process_execs ::
  "lookups \<Rightarrow> company \<Rightarrow> string option \<Rightarrow> string option \<Rightarrow> nat \<Rightarrow> candidate list \<Rightarrow>
   exn + executive list" where
  "process_execs lk row company_domain email_pattern i [] = Inr []"
| "process_execs lk row company_domain email_pattern i (ex # rest) =
     (case process_exec lk row company_domain email_pattern i ex of
        Inl e \<Rightarrow> Inl e
      | Inr rows \<Rightarrow>
          (case process_execs lk row company_domain email_pattern (Suc i) rest of
             Inl e \<Rightarrow> Inl e
           | Inr others \<Rightarrow> Inr (rows @ others)))"

text \<open>One iteration of the loop over the companies: the rows appended for \<open>row\<close>.\<close>

definition enrich_company :: "lookups \<Rightarrow> company \<Rightarrow> exn + executive list" where
  "enrich_company lk row =
     (let company_url = company_website row;
          company_domain =
            (if truthy company_url then extract_domain_from_url company_url else None);
          email_pattern =
            (if truthy company_domain
             then Some (discover_email_pattern (the company_domain) (pattern_pick lk))
             else None)
      in process_execs lk row company_domain email_pattern 0 (all_execs_of lk row))"

fun enrich_from :: "(nat \<Rightarrow> lookups) \<Rightarrow> nat \<Rightarrow> company list \<Rightarrow> exn + executive list" where
  "enrich_from lks i [] = Inr []"
| "enrich_from lks i (row # rest) =
     (case enrich_company (lks i) row of
        Inl e \<Rightarrow> Inl e
      | Inr rows \<Rightarrow>
          (case enrich_from lks (Suc i) rest of
             Inl e \<Rightarrow> Inl e
           | Inr others \<Rightarrow> Inr (rows @ others)))"

definition enrich_contacts :: "(nat \<Rightarrow> lookups) \<Rightarrow> company list \<Rightarrow> exn + executive list" where
  "enrich_contacts lks companies_df = enrich_from lks 0 companies_df"

section \<open>Consolidator (\<open>data_consolidation.py\<close>)\<close>

subsection \<open>Cleaning the names\<close>

text \<open>
  The ten regular expressions of \<open>clean_company_names\<close>, in the order of the list:
  \<open>Suffix_word w False\<close> is whitespace, \<open>w\<close>, end of text; \<open>Suffix_word w True\<close> allows a
  dot after \<open>w\<close>; \<open>Suffix_parens\<close> is whitespace and a parenthesised text at the end.
  \<open>re.sub(pattern, '', text, flags=re.IGNORECASE)\<close> is the parameter \<open>re_sub\<close>.
\<close>

datatype regex = Suffix_word string bool | Suffix_parens

definition patterns :: "regex list" where
  "patterns =
     [Suffix_word ''Ltd'' True, Suffix_word ''Limited'' False, Suffix_word ''Pty'' True,
      Suffix_word ''Corp'' True, Suffix_word ''Corporation'' False, Suffix_word ''Inc'' True,
      Suffix_word ''LLC'' False, Suffix_word ''Group'' False, Suffix_word ''Holdings'' False,
      Suffix_parens]"

definition strip :: "string \<Rightarrow> string" where
  "strip s = rev (dropWhile is_space (rev (dropWhile is_space s)))"

text \<open>A name that is not a string makes \<open>re.sub\<close> raise \<open>TypeError\<close>.\<close>

definition clean_name :: "(regex \<Rightarrow> string \<Rightarrow> string) \<Rightarrow> string option \<Rightarrow> exn + string" where
  "clean_name re_sub name =
     (case name of
        None \<Rightarrow> Inl (TypeError ''expected string or bytes-like object'')
      | Some n \<Rightarrow> Inr (strip (foldl (\<lambda>cleaned pattern. re_sub pattern cleaned) n patterns)))"

text \<open>The company table with its new column \<open>clean_company_name\<close>.\<close>

fun clean_company_names ::
  "(regex \<Rightarrow> string \<Rightarrow> string) \<Rightarrow> company list \<Rightarrow> exn + (company \<times> string) list" where
  "clean_company_names re_sub [] = Inr []"
| "clean_company_names re_sub (r # rs) =
     (case clean_name re_sub (company_name r) of
        Inl e \<Rightarrow> Inl e
      | Inr cleaned \<Rightarrow>
          (case clean_company_names re_sub rs of
             Inl e \<Rightarrow> Inl e
           | Inr others \<Rightarrow> Inr ((r, cleaned) # others)))"

subsection \<open>The join\<close>

text \<open>
  A row of \<open>pd.merge(companies_df, executives_df, on='company_id', how='left')\<close>: the
  columns of the company (its \<open>linkedin_url\<close> is the column \<open>linkedin_url_x\<close>), the cleaned
  name, and the columns of the contact. A company row without contact has NaN in every
  contact column; that is \<open>contact = None\<close>, and the functions below read the columns.
\<close>

record merged_row =
  entity :: company
  clean_company_name :: string
  contact :: "executive option"

definition col_executive_name :: "merged_row \<Rightarrow> string option" where
  "col_executive_name m = map_option executive_name (contact m)"

definition col_executive_title :: "merged_row \<Rightarrow> string option" where
  "col_executive_title m = map_option executive_title (contact m)"

definition col_linkedin_url_y :: "merged_row \<Rightarrow> string option" where
  "col_linkedin_url_y m = (case contact m of None \<Rightarrow> None | Some e \<Rightarrow> exec_linkedin_url e)"

definition col_email :: "merged_row \<Rightarrow> string option" where
  "col_email m = (case contact m of None \<Rightarrow> None | Some e \<Rightarrow> email e)"

definition col_phone :: "merged_row \<Rightarrow> string option" where
  "col_phone m = (case contact m of None \<Rightarrow> None | Some e \<Rightarrow> phone e)"

text \<open>
  The left join: the company rows in their order, each once per contact with its
  \<open>company_id\<close> (in the order of the contact table), and once without contact when no
  contact has its \<open>company_id\<close>.
\<close>

definition merge_left :: "(company \<times> string) list \<Rightarrow> executive list \<Rightarrow> merged_row list" where
  "merge_left left_rows right_rows =
     concat (map (\<lambda>(c, cleaned).
        (case filter (\<lambda>e. exec_company_id e = company_id c) right_rows of
           [] \<Rightarrow> [\<lparr>entity = c, clean_company_name = cleaned, contact = None\<rparr>]
         | matches \<Rightarrow>
             map (\<lambda>e. \<lparr>entity = c, clean_company_name = cleaned, contact = Some e\<rparr>) matches))
        left_rows)"

subsection \<open>The quality score\<close>

text \<open>The two characters of the star string: U+2605 (filled) and U+2606 (empty).\<close>

datatype glyph = Filled_star | Empty_star

definition quality_score :: "merged_row \<Rightarrow> int" where
  "quality_score row =
     (if \<not> (company_name (entity row) = None \<or> industry (entity row) = None \<or>
             country (entity row) = None) then 1 else 0) +
     (if company_website (entity row) \<noteq> None \<and> linkedin_url (entity row) \<noteq> None
      then 1 else 0) +
     (if col_executive_name row \<noteq> None then 1 else 0) +
     (if col_executive_title row \<noteq> None then 1 else 0) +
     (if col_linkedin_url_y row \<noteq> None then 1 else 0) +
     (if col_email row \<noteq> None then 1 else 0) +
     (if col_phone row \<noteq> None then 1 else 0)"

text \<open>
  \<open>calculate_quality\<close>. A Python string repeated a negative number of times is empty, as
  \<^const>\<open>replicate\<close> is at \<open>nat\<close> of a negative number.
\<close>

definition calculate_quality :: "merged_row \<Rightarrow> glyph list" where
  "calculate_quality row =
     (let score = quality_score row
      in replicate (nat score) Filled_star @ replicate (nat (5 - score)) Empty_star)"

subsection \<open>\<open>prepare_final_dataset\<close>\<close>

text \<open>A row of \<open>final_df\<close>: the sixteen columns of \<open>columns_order\<close>.\<close>

record report_row =
  Company_Name :: string
  Industry :: "string option"
  Country :: "string option"
  Company_Size :: "rat option"
  Annual_Revenue :: "rat option"
  Company_Website :: "string option"
  Company_LinkedIn :: "string option"
  Hiring_DevOps :: string
  Hiring_Software_Developers :: string
  C_Level_Contact_Name :: "string option"
  C_Level_Title :: "string option"
  C_Level_LinkedIn :: "string option"
  C_Level_Email :: "string option"
  C_Level_Phone :: "string option"
  Data_Quality :: "glyph list"
  Last_Verified :: string

definition report_of :: "string \<Rightarrow> merged_row \<Rightarrow> report_row" where
  "report_of date m =
     \<lparr>Company_Name = clean_company_name m,
      Industry = industry (entity m),
      Country = country (entity m),
      Company_Size = company_size (entity m),
      Annual_Revenue = annual_revenue (entity m),
      Company_Website = company_website (entity m),
      Company_LinkedIn = linkedin_url (entity m),
      Hiring_DevOps = hiring_devops (entity m),
      Hiring_Software_Developers = hiring_developers (entity m),
      C_Level_Contact_Name = col_executive_name m,
      C_Level_Title = col_executive_title m,
      C_Level_LinkedIn = col_linkedin_url_y m,
      C_Level_Email = col_email m,
      C_Level_Phone = col_phone m,
      Data_Quality = calculate_quality m,
      Last_Verified = date\<rparr>"

text \<open>
  The merged table in the order in which the report lists it: sorted on the company size
  when some row has one, else on the revenue when some row has one, else as merged.
\<close>

definition merged_sorted ::
  "((merged_row \<Rightarrow> rat option) \<Rightarrow> merged_row list \<Rightarrow> merged_row list) \<Rightarrow>
   (company \<times> string) list \<Rightarrow> executive list \<Rightarrow> merged_row list" where
  "merged_sorted sort_values cleaned executives_df =
     (let final_df = merge_left cleaned executives_df
      in if \<not> list_all (\<lambda>m. company_size (entity m) = None) final_df
         then sort_values (\<lambda>m. company_size (entity m)) final_df
         else if \<not> list_all (\<lambda>m. annual_revenue (entity m) = None) final_df
         then sort_values (\<lambda>m. annual_revenue (entity m)) final_df
         else final_df)"

text \<open>
  \<open>to_datetime d\<close> is the date \<open>d\<close> in the format \<open>%Y-%m-%d\<close>, or \<open>None\<close> when
  \<open>pd.to_datetime\<close> raises on it; when it raises anywhere, the bare \<open>except\<close> sets the whole
  column to \<open>today\<close>.
\<close>

definition prepare_final_dataset ::
  "(regex \<Rightarrow> string \<Rightarrow> string) \<Rightarrow>
   ((merged_row \<Rightarrow> rat option) \<Rightarrow> merged_row list \<Rightarrow> merged_row list) \<Rightarrow>
   (string \<Rightarrow> string option) \<Rightarrow> string \<Rightarrow>
   company list \<Rightarrow> executive list \<Rightarrow> exn + report_row list" where
  "prepare_final_dataset re_sub sort_values to_datetime today companies_df executives_df =
     (case clean_company_names re_sub companies_df of
        Inl e \<Rightarrow> Inl e
      | Inr cleaned \<Rightarrow>
          (let final_df = merged_sorted sort_values cleaned executives_df;
               parsed = list_all (\<lambda>m. to_datetime (last_verified (entity m)) \<noteq> None) final_df
           in Inr (map (\<lambda>m. report_of
                              (if parsed then the (to_datetime (last_verified (entity m)))
                               else today) m)
                       final_df)))"

subsection \<open>The top ten opportunities\<close>

text \<open>
  The size column is numeric, so \<open>float(str(size).replace(',', ''))\<close> is the size itself
  and the \<open>except\<close> branch is not taken.
\<close>

definition score_opportunity :: "report_row \<Rightarrow> int" where
  "score_opportunity row =
     (if Hiring_DevOps row = ''Yes'' \<and> Hiring_Software_Developers row = ''Yes'' then 3
      else if Hiring_DevOps row = ''Yes'' \<or> Hiring_Software_Developers row = ''Yes'' then 1
      else 0) +
     (if C_Level_Contact_Name row \<noteq> None then 1 else 0) +
     (if C_Level_Email row \<noteq> None then 2 else 0) +
     (if C_Level_Phone row \<noteq> None then 2 else 0) +
     (case Company_Size row of
        None \<Rightarrow> 0
      | Some sz \<Rightarrow>
          if sz > 10000 then 3 else if sz > 1000 then 2 else if sz > 100 then 1 else 0)"

text \<open>\<open>sep.join(xs)\<close>.\<close>

fun join :: "string \<Rightarrow> string list \<Rightarrow> string" where
  "join sep [] = []"
| "join sep [x] = x"
| "join sep (x # y # xs) = x @ sep @ join sep (y # xs)"

definition opportunity_notes :: "report_row \<Rightarrow> string list" where
  "opportunity_notes row =
     (if Hiring_DevOps row = ''Yes'' \<and> Hiring_Software_Developers row = ''Yes''
        then [''Actively hiring for both DevOps and Software Developer roles'']
      else if Hiring_DevOps row = ''Yes'' then [''Currently seeking DevOps talent'']
      else if Hiring_Software_Developers row = ''Yes''
        then [''Actively recruiting Software Developers'']
      else []) @
     (if C_Level_Email row \<noteq> None \<and> C_Level_Phone row \<noteq> None
        then [''Complete C-level contact information available'']
      else if C_Level_Email row \<noteq> None
        then [''Direct email contact available for decision maker'']
      else []) @
     (case Company_Size row of
        None \<Rightarrow> []
      | Some sz \<Rightarrow>
          if sz > 5000 then [''Major enterprise with significant IT needs'']
          else if sz > 1000 then [''Large company with established IT department'']
          else [])"

definition create_opportunity_note :: "report_row \<Rightarrow> string" where
  "create_opportunity_note row =
     (let notes = opportunity_notes row
      in if notes \<noteq> [] then join ''; '' notes else ''Standard opportunity'')"

text \<open>A row of \<open>opportunities_df\<close>: the report row and the two new columns.\<close>

record scored_row =
  report :: report_row
  Opportunity_Score :: int
  Opportunity_Notes :: string

definition score_row :: "report_row \<Rightarrow> scored_row" where
  "score_row row =
     \<lparr>report = row,
      Opportunity_Score = score_opportunity row,
      Opportunity_Notes = create_opportunity_note row\<rparr>"

text \<open>
  \<open>sort_values('Opportunity Score', ascending=False)\<close> is the parameter \<open>sort_scores\<close>; then
  \<open>drop_duplicates(subset=['Company Name']).head(10)\<close>.
\<close>

definition top_opportunities ::
  "(scored_row list \<Rightarrow> scored_row list) \<Rightarrow> report_row list \<Rightarrow> scored_row list" where
  "top_opportunities sort_scores final_df =
     take 10 (drop_duplicates (\<lambda>r. Company_Name (report r))
                (sort_scores (map score_row final_df)))"

text \<open>The eleven columns of \<open>display_columns\<close>.\<close>

record opportunity_row =
  Top_Company_Name :: string
  Top_Industry :: "string option"
  Top_Country :: "string option"
  Top_Hiring_DevOps :: string
  Top_Hiring_Software_Developers :: string
  Top_Contact_Name :: "string option"
  Top_Title :: "string option"
  Top_Email :: "string option"
  Top_Phone :: "string option"
  Top_Opportunity_Score :: int
  Top_Opportunity_Notes :: string

definition display :: "scored_row \<Rightarrow> opportunity_row" where
  "display r =
     \<lparr>Top_Company_Name = Company_Name (report r),
      Top_Industry = Industry (report r),
      Top_Country = Country (report r),
      Top_Hiring_DevOps = Hiring_DevOps (report r),
      Top_Hiring_Software_Developers = Hiring_Software_Developers (report r),
      Top_Contact_Name = C_Level_Contact_Name (report r),
      Top_Title = C_Level_Title (report r),
      Top_Email = C_Level_Email (report r),
      Top_Phone = C_Level_Phone (report r),
      Top_Opportunity_Score = Opportunity_Score r,
      Top_Opportunity_Notes = Opportunity_Notes r\<rparr>"

definition create_opportunities_content ::
  "(scored_row list \<Rightarrow> scored_row list) \<Rightarrow> report_row list \<Rightarrow> opportunity_row list" where
  "create_opportunities_content sort_scores final_df =
     map display (top_opportunities sort_scores final_df)"

subsection \<open>\<open>main\<close> and its handler\<close>

text \<open>
  What a \<open>main\<close> does to the outside, in order: lines printed (an f-string with a count is
  a label and the number), a stack trace printed, a file opened in mode \<open>'w'\<close> and written.
\<close>

datatype event =
    Print string
  | Print_count string nat
  | Print_traceback exn
  | Write_file string string

text \<open>The events that write a file.\<close>

definition is_file_write :: "event \<Rightarrow> bool" where
  "is_file_write ev = (case ev of Write_file path text \<Rightarrow> True | _ \<Rightarrow> False)"

text \<open>\<open>str(e)\<close>; for a \<open>KeyError\<close> it is the key between quotes.\<close>

definition exn_message :: "exn \<Rightarrow> string" where
  "exn_message e =
     (case e of
        KeyError k \<Rightarrow> [CHR 0x27] @ k @ [CHR 0x27]
      | TypeError m \<Rightarrow> m
      | IndexError m \<Rightarrow> m
      | SystemExit n \<Rightarrow> [])"

text \<open>
  \<open>except Exception as e\<close> of the Consolidator's \<open>main\<close>. \<open>SystemExit\<close> is not an
  \<open>Exception\<close> and leaves \<open>main\<close>; the second component is the exception that leaves it.
\<close>

definition consolidation_handler :: "exn \<Rightarrow> event list \<times> exn option" where
  "consolidation_handler e =
     (case e of
        SystemExit n \<Rightarrow> ([], Some e)
      | _ \<Rightarrow> ([Print (''Error in data consolidation: '' @ exn_message e), Print_traceback e],
              None))"

text \<open>
  The Consolidator's \<open>main\<close>. \<open>files\<close> is what \<open>load_data\<close> reads, \<open>None\<close> when a file is
  missing (it prints and calls \<open>exit(1)\<close>). \<open>build_workbook\<close> stands for the summary, the
  static sheets, the formatting and \<open>workbook.save\<close>, which work on the tables built here
  and may raise.
\<close>

definition consolidation_main ::
  "(regex \<Rightarrow> string \<Rightarrow> string) \<Rightarrow>
   ((merged_row \<Rightarrow> rat option) \<Rightarrow> merged_row list \<Rightarrow> merged_row list) \<Rightarrow>
   (scored_row list \<Rightarrow> scored_row list) \<Rightarrow>
   (string \<Rightarrow> string option) \<Rightarrow> string \<Rightarrow>
   (report_row list \<Rightarrow> opportunity_row list \<Rightarrow> exn + unit) \<Rightarrow>
   (company list \<times> executive list) option \<Rightarrow> event list \<times> exn option" where
  "consolidation_main re_sub sort_values sort_scores to_datetime today build_workbook files =
     (let start = Print ''Starting data consolidation process...''
      in case files of
           None \<Rightarrow>
             (let (events, escaped) = consolidation_handler (SystemExit 1)
              in (start #
                  Print ''Processed data files not found. Please run the previous scripts first.'' #
                  events, escaped))
         | Some (companies_df, executives_df) \<Rightarrow>
             (case prepare_final_dataset re_sub sort_values to_datetime today
                     companies_df executives_df of
                Inl e \<Rightarrow>
                  (let (events, escaped) = consolidation_handler e in (start # events, escaped))
              | Inr final_df \<Rightarrow>
                  (case build_workbook final_df
                          (create_opportunities_content sort_scores final_df) of
                     Inl e \<Rightarrow>
                       (let (events, escaped) = consolidation_handler e
                        in (start # events, escaped))
                   | Inr _ \<Rightarrow>
                       ([start,
                         Print (CHR 0x0A # ''Final deliverable created successfully!''),
                         Print ''Saved to: data/final/ANZ_Insurance_Finance_Companies.xlsx'',
                         Print (CHR 0x0A # ''Summary:''),
                         Print_count ''Total companies included: ''
                           (length (remdups (map Company_Name final_df))),
                         Print_count ''Companies with complete contact information: ''
                           (length (filter (\<lambda>r. C_Level_Email r \<noteq> None) final_df)),
                         Print (CHR 0x0A # ''The Excel file contains the following sheets:''),
                         Print ''- Company Data: Main dataset with all companies and contacts'',
                         Print ''- Summary Dashboard: Key statistics and metrics'',
                         Print ''- Methodology: Detailed explanation of data collection process'',
                         Print ''- Sources: List of all data sources used'',
                         Print ''- Top 10 Opportunities: Highest potential companies for targeting''],
                        None))))"

text \<open>
  The handler of the Collector's \<open>main\<close>, the only one in the four scripts that writes a
  log file: it prints the message and overwrites \<open>data/raw/error_log.txt\<close>; \<open>now\<close> is
  \<open>str(datetime.now())\<close>.
\<close>

definition collector_handler :: "string \<Rightarrow> exn \<Rightarrow> event list" where
  "collector_handler now e =
     [Print (''Error processing dataframe: '' @ exn_message e),
      Write_file ''data/raw/error_log.txt''
        (''Error occurred at '' @ now @ '': '' @ exn_message e)]"

section \<open>Library functions used in the examples\<close>

text \<open>
  The functions of pandas and \<open>re\<close> that the model takes as parameters, each in one
  version that the examples below run: a stable sort in descending order of the column
  with the rows without a value last, a stable sort in descending order of the score, the
  ten substitutions for ASCII text without line breaks, and a date parser that accepts
  dates written \<open>YYYY-MM-DD\<close>.
\<close>

definition sort_values_stable :: "('a \<Rightarrow> rat option) \<Rightarrow> 'a list \<Rightarrow> 'a list" where
  "sort_values_stable key rows =
     sort_key (\<lambda>r. - the (key r)) (filter (\<lambda>r. key r \<noteq> None) rows) @
     filter (\<lambda>r. key r = None) rows"

definition sort_scores_stable :: "scored_row list \<Rightarrow> scored_row list" where
  "sort_scores_stable rows = sort_key (\<lambda>r. - Opportunity_Score r) rows"


definition ends_with_word :: "string \<Rightarrow> string \<Rightarrow> bool" where
  "ends_with_word w s =
     (length w < length s \<and> is_space (s ! (length s - length w - 1)) \<and>
      lower (drop (length s - length w) s) = lower w)"

definition re_sub_ascii :: "regex \<Rightarrow> string \<Rightarrow> string" where
  "re_sub_ascii pattern s =
     (case pattern of
        Suffix_word w dot \<Rightarrow>
          (if dot \<and> s \<noteq> [] \<and> last s = CHR ''.'' \<and> ends_with_word w (butlast s)
           then take (length s - length w - 2) s
           else if ends_with_word w s then take (length s - length w - 1) s
           else s)
      | Suffix_parens \<Rightarrow>
          (if 4 \<le> length s \<and> last s = CHR '')''
           then (case find (\<lambda>i. is_space (s ! i) \<and> s ! (i + 1) = CHR ''('')
                        [0 ..< length s - 3] of
                   None \<Rightarrow> s
                 | Some i \<Rightarrow> take i s)
           else s))"

definition is_digit :: "char \<Rightarrow> bool" where
  "is_digit c = (c \<in> set ''0123456789'')"

definition to_datetime_iso :: "string \<Rightarrow> string option" where
  "to_datetime_iso d =
     (if length d = 10 \<and> d ! 4 = CHR ''-'' \<and> d ! 7 = CHR ''-'' \<and>
         list_all is_digit (take 4 d @ take 2 (drop 5 d) @ drop 8 d)
      then Some d else None)"

definition workbook_ok :: "report_row list \<Rightarrow> opportunity_row list \<Rightarrow> exn + unit" where
  "workbook_ok final_df opportunities_df = Inr ()"

section \<open>Example data\<close>

definition suncorp :: company where
  "suncorp =
     \<lparr>company_id = 7,
      company_name = Some ''Suncorp Group'',
      industry = Some ''Both'',
      country = Some ''Australia'',
      company_size = None,
      annual_revenue = None,
      company_website = Some ''suncorp.com.au'',
      linkedin_url = Some ''https://www.linkedin.com/company/suncorp-group'',
      actively_hiring = ''Yes'',
      hiring_devops = ''Yes'',
      hiring_developers = ''Yes'',
      data_source = Some ''ASX'',
      last_verified = ''2024-05-01'',
      devops_source = Some ''suncorp.com.au/careers'',
      software_dev_source = Some ''suncorp.com.au/careers''\<rparr>"

definition kiwibank :: company where
  "kiwibank =
     \<lparr>company_id = 15,
      company_name = Some ''Kiwibank'',
      industry = Some ''Finance'',
      country = Some ''New Zealand'',
      company_size = None,
      annual_revenue = None,
      company_website = Some ''kiwibank.co.nz'',
      linkedin_url = None,
      actively_hiring = ''Unknown'',
      hiring_devops = ''Unknown'',
      hiring_developers = ''Unknown'',
      data_source = Some ''NZX'',
      last_verified = ''2024-05-01'',
      devops_source = None,
      software_dev_source = None\<rparr>"

text \<open>A company row whose name cell is empty in the spreadsheet.\<close>

definition nameless :: company where
  "nameless = kiwibank\<lparr>company_id := 16, company_name := None\<rparr>"

definition jane :: executive where
  "jane =
     \<lparr>exec_company_id = 7,
      executive_name = ''Jane Doe'',
      executive_title = ''Chief Technology Officer'',
      exec_linkedin_url = Some ''https://www.linkedin.com/in/jane-doe-12345'',
      email = Some ''jane.doe@suncorp.com.au'',
      phone = Some ''+61 7 1234 5678'',
      source = ''Mock Data'',
      verification_status = ''Domain MX Verified''\<rparr>"

text \<open>A second contact of the same company, found on the company site.\<close>

definition john :: executive where
  "john =
     \<lparr>exec_company_id = 7,
      executive_name = ''John Smith'',
      executive_title = ''Chief Information Officer'',
      exec_linkedin_url = None,
      email = None,
      phone = None,
      source = ''suncorp.com.au/about/leadership'',
      verification_status = ''Not Verified''\<rparr>"

text \<open>The merged row of \<open>suncorp\<close> and \<open>jane\<close>: no column of the quality score is empty.\<close>

definition suncorp_jane :: merged_row where
  "suncorp_jane = \<lparr>entity = suncorp, clean_company_name = ''Suncorp'', contact = Some jane\<rparr>"

text \<open>
  The report row of the specification's example: both flags \<open>'Yes'\<close>, a contact with an
  email and a phone number and nothing else.
\<close>

definition suncorp_report :: report_row where
  "suncorp_report =
     \<lparr>Company_Name = ''Suncorp'',
      Industry = Some ''Both'',
      Country = Some ''Australia'',
      Company_Size = None,
      Annual_Revenue = None,
      Company_Website = Some ''suncorp.com.au'',
      Company_LinkedIn = Some ''https://www.linkedin.com/company/suncorp-group'',
      Hiring_DevOps = ''Yes'',
      Hiring_Software_Developers = ''Yes'',
      C_Level_Contact_Name = None,
      C_Level_Title = None,
      C_Level_LinkedIn = None,
      C_Level_Email = Some ''jane.doe@suncorp.com.au'',
      C_Level_Phone = Some ''+61 7 1234 5678'',
      Data_Quality = [Filled_star, Filled_star, Filled_star, Filled_star, Empty_star],
      Last_Verified = ''2024-05-01''\<rparr>"

text \<open>Answers of the three sources for one company.\<close>

definition found_devops :: check_result where
  "found_devops =
     \<lparr>has_devops = True, has_software_dev = False,
      result_source = Some ''kiwibank.co.nz/careers''\<rparr>"

definition found_nothing :: check_result where
  "found_nothing = \<lparr>has_devops = False, has_software_dev = False, result_source = None\<rparr>"

text \<open>Finder results: nobody found, and one search hit without a readable name.\<close>

definition nobody_found :: lookups where
  "nobody_found =
     \<lparr>linkedin_found = [], website_found = [], pattern_pick = 3,
      email_exists = (\<lambda>i. True), phone_found = (\<lambda>i. None)\<rparr>"

definition unknown_found :: lookups where
  "unknown_found =
     \<lparr>linkedin_found =
        [\<lparr>cand_name = ''Unknown'', cand_title = ''Technology Executive'',
          cand_linkedin_url = Some ''https://au.linkedin.com/in/x-1'',
          cand_source = ''LinkedIn via Google''\<rparr>],
      website_found = [], pattern_pick = 0,
      email_exists = (\<lambda>i. True), phone_found = (\<lambda>i. None)\<rparr>"



section \<open>Properties of the Collector\<close>

lemma drop_dups_from_subset:
  "set (drop_dups_from key seen xs) \<subseteq> set xs"
  by (induction xs arbitrary: seen) auto

lemma drop_dups_from_map:
  "drop_dups_from key seen (map f xs) = map f (drop_dups_from (\<lambda>x. key (f x)) seen xs)"
  by (induction xs arbitrary: seen) simp_all

lemma drop_dups_from_key_cong:
  "(\<And>x. x \<in> set xs \<Longrightarrow> key x = g (key' x)) \<Longrightarrow> inj g \<Longrightarrow>
   drop_dups_from key (map g seen) xs = drop_dups_from key' seen xs"
proof (induction xs arbitrary: seen)
  case Nil
  then show ?case by simp
next
  case (Cons x xs)
  have k: "key x = g (key' x)" using Cons.prems(1) by simp
  have mem: "g (key' x) \<in> g ` set seen \<longleftrightarrow> key' x \<in> set seen"
    using Cons.prems(2) by (auto dest: injD)
  have ih: "drop_dups_from key (map g s) xs = drop_dups_from key' s xs" for s
    using Cons.IH [of s] Cons.prems by simp
  show ?case
    using ih [of seen] ih [of "key' x # seen"] by (simp add: k mem)
qed

lemma enrich_ids:
  "map company_id (enrich_with_linkedin rows) = map company_id rows"
  "map company_id (enrich_with_company_websites rows) = map company_id rows"
  by (simp_all add: enrich_with_linkedin_def enrich_with_company_websites_def
      split: option.split)

lemma assign_company_ids_zip:
  "assign_company_ids (map (to_row today) cs) =
   map (\<lambda>(r, i). (to_row today r)\<lparr>company_id := i\<rparr>) (zip cs [1 .. int (length cs)])"
  by (simp add: assign_company_ids_def zip_map1 case_prod_unfold)

lemma collected_ids_names:
  assumes "cs \<noteq> []"
  shows "collected_ids today cs =
         map snd (drop_dups_from fst [] (zip (map raw_name cs) [1 .. int (length cs)]))"
proof -
  let ?z = "zip cs [1 .. int (length cs)]"
  let ?g = "\<lambda>(r, i). (to_row today r)\<lparr>company_id := i\<rparr>"
  have "collected_ids today cs =
        map company_id (drop_dups_from company_name [] (map ?g ?z))"
    using assms
    by (simp add: collected_ids_def collected_df_def enrich_ids drop_duplicates_def
        assign_company_ids_zip)
  also have "\<dots> = map company_id (map ?g (drop_dups_from (\<lambda>x. company_name (?g x)) [] ?z))"
    by (simp only: drop_dups_from_map)
  also have "\<dots> = map snd (drop_dups_from (\<lambda>x. company_name (?g x)) [] ?z)"
    by (simp add: case_prod_unfold comp_def)
  also have "drop_dups_from (\<lambda>x. company_name (?g x)) [] ?z =
             drop_dups_from (\<lambda>x. raw_name (fst x)) [] ?z"
    using drop_dups_from_key_cong [of ?z "\<lambda>x. company_name (?g x)" Some "\<lambda>x. raw_name (fst x)" "[]"]
    by (simp add: case_prod_unfold to_row_def)
  also have "map snd (drop_dups_from (\<lambda>x. raw_name (fst x)) [] ?z) =
             map snd (drop_dups_from fst [] (map (\<lambda>(r, i). (raw_name r, i)) ?z))"
    by (simp add: drop_dups_from_map case_prod_unfold comp_def)
  also have "map (\<lambda>(r, i). (raw_name r, i)) ?z = zip (map raw_name cs) [1 .. int (length cs)]"
    by (simp add: zip_map1 case_prod_unfold)
  finally show ?thesis .
qed

lemma drop_dups_from_sorted:
  "sorted_wrt R (map f xs) \<Longrightarrow> sorted_wrt R (map f (drop_dups_from key seen xs))"
proof (induction xs arbitrary: seen)
  case Nil
  then show ?case by simp
next
  case (Cons x xs)
  have "set (drop_dups_from key s xs) \<subseteq> set xs" for s
    by (rule drop_dups_from_subset)
  then show ?case using Cons by auto
qed

lemma drop_dups_from_distinct:
  "distinct (map key (drop_dups_from key seen xs)) \<and>
   set (map key (drop_dups_from key seen xs)) \<inter> set seen = {}"
proof (induction xs arbitrary: seen)
  case Nil
  then show ?case by simp
next
  case (Cons x xs)
  show ?case
  proof (cases "key x \<in> set seen")
    case True
    then show ?thesis using Cons [of seen] by simp
  next
    case False
    then show ?thesis using Cons [of "key x # seen"] by auto
  qed
qed

lemma drop_dups_from_id:
  "distinct (map key xs) \<Longrightarrow> set (map key xs) \<inter> set seen = {} \<Longrightarrow>
   drop_dups_from key seen xs = xs"
  by (induction xs arbitrary: seen) auto

lemma enrich_names:
  "map company_name (enrich_with_linkedin rows) = map company_name rows"
  "map company_name (enrich_with_company_websites rows) = map company_name rows"
  by (simp_all add: enrich_with_linkedin_def enrich_with_company_websites_def
      split: option.split)

lemma assign_company_ids_ids:
  "map company_id (assign_company_ids (map (to_row today) cs)) = [1 .. int (length cs)]"
proof -
  have "map company_id (assign_company_ids (map (to_row today) cs)) =
        map snd (zip cs [1 .. int (length cs)])"
    by (simp add: assign_company_ids_zip case_prod_unfold comp_def)
  then show ?thesis by simp
qed

lemma map_fst_zip_fun:
  "length xs = length ys \<Longrightarrow> map (\<lambda>p. f (fst p)) (zip xs ys) = map f xs"
  by (induction xs ys rule: list_induct2) simp_all

lemma assign_company_ids_names:
  "map company_name (assign_company_ids (map (to_row today) cs)) =
   map (\<lambda>r. Some (raw_name r)) cs"
proof -
  let ?z = "zip cs [1 .. int (length cs)]"
  have "map company_name (assign_company_ids (map (to_row today) cs)) =
        map (\<lambda>x. Some (raw_name (fst x))) ?z"
    by (simp add: assign_company_ids_zip case_prod_unfold comp_def to_row_def)
  also have "\<dots> = map (\<lambda>r. Some (raw_name r)) cs"
    by (rule map_fst_zip_fun) simp
  finally show ?thesis .
qed

lemma distinct_map_inj:
  "distinct (map f xs) \<Longrightarrow> inj g \<Longrightarrow> distinct (map (\<lambda>x. g (f x)) xs)"
  by (induction xs) (auto dest: injD)

lemma map_enumerate_preserved:
  "(\<And>i x. f (g i x) = f x) \<Longrightarrow>
   map f (map (\<lambda>(i, x). g i x) (enumerate n xs)) = map f xs"
  by (induction xs arbitrary: n) simp_all

lemma check_ids:
  "company_id (check_careers c r) = company_id r"
  "company_id (check_further c r) = company_id r"
  "company_id (mark_no r) = company_id r"
  "company_id (set_actively_hiring r) = company_id r"
  by (simp_all add: check_careers_def check_further_def mark_no_def set_actively_hiring_def
      Let_def)

lemma verify_row_id:
  "company_id (verify_row c l s r) = company_id r"
  by (simp add: verify_row_def verify_trace_def Let_def check_seek_def check_linkedin_def
      check_ids)

lemma verify_hiring_status_ids:
  "map company_id (verify_hiring_status careers linkedin seek rows) = map company_id rows"
  unfolding verify_hiring_status_def
  by (rule map_enumerate_preserved) (simp add: verify_row_id)

lemma drop_dups_from_snoc:
  "drop_dups_from key seen (xs @ [y]) =
   drop_dups_from key seen xs @
   (if key y \<in> set seen \<union> key ` set xs then [] else [y])"
  by (induction xs arbitrary: seen) auto

lemma drop_dups_from_positions:
  "drop_dups_from key [] xs =
   map ((!) xs) (filter (\<lambda>i. key (xs ! i) \<notin> key ` set (take i xs)) [0 ..< length xs])"
proof (induction xs rule: rev_induct)
  case Nil
  then show ?case by simp
next
  case (snoc y xs)
  let ?n = "length xs"
  let ?P = "\<lambda>i. key (xs ! i) \<notin> key ` set (take i xs)"
  let ?Q = "\<lambda>i. key ((xs @ [y]) ! i) \<notin> key ` set (take i (xs @ [y]))"
  have same: "?Q i = ?P i" if "i < ?n" for i
    using that by (simp add: nth_append)
  have f: "filter ?Q [0 ..< ?n] = filter ?P [0 ..< ?n]"
    by (rule filter_cong) (simp_all add: nth_append)
  have m: "map ((!) (xs @ [y])) (filter ?P [0 ..< ?n]) = map ((!) xs) (filter ?P [0 ..< ?n])"
    by (rule map_cong) (auto simp add: nth_append)
  have last: "?Q ?n = (key y \<notin> key ` set xs)"
    by simp
  have "map ((!) (xs @ [y])) (filter ?Q [0 ..< length (xs @ [y])]) =
        map ((!) (xs @ [y])) (filter ?Q [0 ..< ?n]) @
        (if ?Q ?n then [(xs @ [y]) ! ?n] else [])"
    by simp
  also have "\<dots> = map ((!) xs) (filter ?P [0 ..< ?n]) @
        (if key y \<notin> key ` set xs then [y] else [])"
    unfolding f m last by simp
  also have "\<dots> = drop_dups_from key [] (xs @ [y])"
    by (simp add: drop_dups_from_snoc snoc.IH)
  finally show ?case by simp
qed

lemma assign_company_ids_nth:
  assumes "i < length cs"
  shows "company_id (assign_company_ids (map (to_row today) cs) ! i) = int i + 1"
    and "company_name (assign_company_ids (map (to_row today) cs) ! i) = Some (raw_name (cs ! i))"
proof -
  let ?A = "assign_company_ids (map (to_row today) cs)"
  have len: "length ?A = length cs"
    by (simp add: assign_company_ids_def)
  have "company_id (?A ! i) = map company_id ?A ! i"
    using assms len by simp
  also have "\<dots> = [1 .. int (length cs)] ! i"
    by (simp only: assign_company_ids_ids)
  also have "\<dots> = int i + 1"
    using assms by (simp add: nth_upto)
  finally show "company_id (?A ! i) = int i + 1" .
  have "company_name (?A ! i) = map company_name ?A ! i"
    using assms len by simp
  also have "\<dots> = map (\<lambda>r. Some (raw_name r)) cs ! i"
    by (simp only: assign_company_ids_names)
  also have "\<dots> = Some (raw_name (cs ! i))"
    using assms by simp
  finally show "company_name (?A ! i) = Some (raw_name (cs ! i))" .
qed

lemma assign_company_ids_seen:
  "company_name ` set (take i (assign_company_ids (map (to_row today) cs))) =
   Some ` set (map raw_name (take i cs))"
proof -
  let ?A = "assign_company_ids (map (to_row today) cs)"
  have "company_name ` set (take i ?A) = set (take i (map company_name ?A))"
    by (simp add: take_map)
  also have "\<dots> = set (take i (map (\<lambda>r. Some (raw_name r)) cs))"
    by (simp only: assign_company_ids_names)
  also have "\<dots> = Some ` set (map raw_name (take i cs))"
    by (simp add: take_map image_image)
  finally show ?thesis .
qed

lemma drop_duplicates_assigned:
  "map company_id (drop_duplicates company_name (assign_company_ids (map (to_row today) cs))) =
     map (\<lambda>i. int i + 1)
       (filter (\<lambda>i. raw_name (cs ! i) \<notin> set (map raw_name (take i cs))) [0 ..< length cs])"
  "map company_name (drop_duplicates company_name (assign_company_ids (map (to_row today) cs))) =
     map (\<lambda>i. Some (raw_name (cs ! i)))
       (filter (\<lambda>i. raw_name (cs ! i) \<notin> set (map raw_name (take i cs))) [0 ..< length cs])"
proof -
  let ?A = "assign_company_ids (map (to_row today) cs)"
  let ?P = "\<lambda>i. company_name (?A ! i) \<notin> company_name ` set (take i ?A)"
  let ?Q = "\<lambda>i. raw_name (cs ! i) \<notin> set (map raw_name (take i cs))"
  have len: "length ?A = length cs"
    by (simp add: assign_company_ids_def)
  have pq: "?P i = ?Q i" if "i < length cs" for i
    unfolding assign_company_ids_seen assign_company_ids_nth(2) [OF that]
    by (simp add: image_iff)
  have f: "filter ?P [0 ..< length cs] = filter ?Q [0 ..< length cs]"
    by (rule filter_cong) (simp_all add: pq)
  have d: "drop_duplicates company_name ?A = map ((!) ?A) (filter ?Q [0 ..< length cs])"
    unfolding drop_duplicates_def drop_dups_from_positions len f ..
  have "map company_id (map ((!) ?A) (filter ?Q [0 ..< length cs])) =
        map (\<lambda>i. int i + 1) (filter ?Q [0 ..< length cs])"
    unfolding map_map by (rule map_cong) (simp_all add: assign_company_ids_nth)
  then show "map company_id (drop_duplicates company_name ?A) =
     map (\<lambda>i. int i + 1) (filter ?Q [0 ..< length cs])"
    unfolding d .
  have "map company_name (map ((!) ?A) (filter ?Q [0 ..< length cs])) =
        map (\<lambda>i. Some (raw_name (cs ! i))) (filter ?Q [0 ..< length cs])"
    unfolding map_map by (rule map_cong) (simp_all add: assign_company_ids_nth)
  then show "map company_name (drop_duplicates company_name ?A) =
     map (\<lambda>i. Some (raw_name (cs ! i))) (filter ?Q [0 ..< length cs])"
    unfolding d .
qed

text \<open>
  C1, amended. The Collector numbers the rows of the catalog 1, 2, ... in list order and
  then drops every row whose name occurred at an earlier row. For every non-empty catalog
  the saved table holds, in the order of the catalog, exactly the rows at which a name
  occurs for the first time, each with its position in the catalog (counted from 1) as
  id and with its name; the position of every later occurrence of a name is missing from
  the ids. The ids are therefore strictly increasing in list order, without duplicates and
  between 1 and the length of the catalog, and the names of the saved table are distinct.
  When no name occurs twice in the catalog, the ids are the contiguous sequence 1..N. The
  Status Checker leaves the id column as it is.
\<close>

theorem collected_ids_unique_increasing:
  assumes "companies \<noteq> []"
  shows "\<exists>rows. collected_df today companies = Inr rows \<and>
           collected_ids today companies = map company_id rows \<and>
           map company_id rows =
             map (\<lambda>i. int i + 1)
               (filter (\<lambda>i. raw_name (companies ! i) \<notin> set (map raw_name (take i companies)))
                  [0 ..< length companies]) \<and>
           map company_name rows =
             map (\<lambda>i. Some (raw_name (companies ! i)))
               (filter (\<lambda>i. raw_name (companies ! i) \<notin> set (map raw_name (take i companies)))
                  [0 ..< length companies]) \<and>
           sorted_wrt (<) (map company_id rows) \<and>
           distinct (map company_id rows) \<and>
           set (map company_id rows) \<subseteq> {1 .. int (length companies)} \<and>
           distinct (map company_name rows) \<and>
           (distinct (map raw_name companies) \<longrightarrow>
              map company_id rows = [1 .. int (length rows)]) \<and>
           map company_id (verify_hiring_status careers linkedin seek rows) =
             map company_id rows"
proof -
  let ?A = "assign_company_ids (map (to_row today) companies)"
  let ?D = "drop_duplicates company_name ?A"
  let ?rows = "enrich_with_linkedin (enrich_with_company_websites ?D)"
  have df: "collected_df today companies = Inr ?rows"
    using assms by (simp add: collected_df_def)
  have ids: "map company_id ?rows = map company_id ?D"
    by (simp add: enrich_ids)
  have names: "map company_name ?rows = map company_name ?D"
    by (simp add: enrich_names)
  have strict: "sorted_wrt (<) (map company_id ?A)"
    by (simp add: assign_company_ids_ids strict_sorted_iff)
  then have sorted: "sorted_wrt (<) (map company_id ?D)"
    unfolding drop_duplicates_def by (rule drop_dups_from_sorted)
  then have dist: "distinct (map company_id ?D)"
    by (simp add: strict_sorted_iff)
  have "set ?D \<subseteq> set ?A"
    unfolding drop_duplicates_def by (rule drop_dups_from_subset)
  then have "set (map company_id ?D) \<subseteq> set (map company_id ?A)" by auto
  then have range: "set (map company_id ?D) \<subseteq> {1 .. int (length companies)}"
    by (simp add: assign_company_ids_ids)
  have dnames: "distinct (map company_name ?D)"
    unfolding drop_duplicates_def using drop_dups_from_distinct by blast
  have contiguous: "map company_id ?D = [1 .. int (length ?rows)]"
    if d: "distinct (map raw_name companies)"
  proof -
    have "distinct (map company_name ?A)"
      unfolding assign_company_ids_names using d by (rule distinct_map_inj) simp
    then have same: "?D = ?A"
      unfolding drop_duplicates_def by (intro drop_dups_from_id) simp_all
    have "length ?rows = length ?D"
      by (simp add: enrich_with_linkedin_def enrich_with_company_websites_def)
    also have "\<dots> = length companies"
      unfolding same by (simp add: assign_company_ids_def)
    finally have len: "length ?rows = length companies" .
    show ?thesis
      using assign_company_ids_ids [of today companies] len by (simp add: same)
  qed
  show ?thesis
  proof (intro exI conjI impI)
    show "collected_df today companies = Inr ?rows" by (rule df)
    show "collected_ids today companies = map company_id ?rows"
      by (simp add: collected_ids_def df)
    show "map company_id ?rows =
             map (\<lambda>i. int i + 1)
               (filter (\<lambda>i. raw_name (companies ! i) \<notin> set (map raw_name (take i companies)))
                  [0 ..< length companies])"
      unfolding ids by (rule drop_duplicates_assigned(1))
    show "map company_name ?rows =
             map (\<lambda>i. Some (raw_name (companies ! i)))
               (filter (\<lambda>i. raw_name (companies ! i) \<notin> set (map raw_name (take i companies)))
                  [0 ..< length companies])"
      unfolding names by (rule drop_duplicates_assigned(2))
    show "sorted_wrt (<) (map company_id ?rows)" using sorted ids by simp
    show "distinct (map company_id ?rows)" using dist ids by simp
    show "set (map company_id ?rows) \<subseteq> {1 .. int (length companies)}"
      using range ids by simp
    show "distinct (map company_name ?rows)" using dnames names by simp
    show "map company_id ?rows = [1 .. int (length ?rows)]"
      if "distinct (map raw_name companies)"
      using contiguous [OF that] ids by simp
    show "map company_id (verify_hiring_status careers linkedin seek ?rows) =
             map company_id ?rows"
      by (rule verify_hiring_status_ids)
  qed
qed

theorem collected_ids_unique_increasing_witness:
  "search_asx_companies @ search_nzx_companies \<noteq> [] \<and>
   raw_name (search_nzx_companies ! 2) = raw_name (search_asx_companies ! 1) \<and>
   collected_ids ''2024-05-01'' (search_asx_companies @ search_nzx_companies) =
     [1 .. 12] @ [14, 15] \<and>
   sorted_wrt (<) (collected_ids ''2024-05-01'' (search_asx_companies @ search_nzx_companies)) \<and>
   distinct (collected_ids ''2024-05-01'' (search_asx_companies @ search_nzx_companies)) \<and>
   search_nzx_companies \<noteq> [] \<and>
   distinct (map raw_name search_nzx_companies) \<and>
   collected_ids ''2024-05-01'' search_nzx_companies =
     [1 .. int (length (collected_ids ''2024-05-01'' search_nzx_companies))] \<and>
   collected_ids ''2024-05-01'' search_nzx_companies = [1, 2, 3, 4, 5]"
proof -
  have nonempty: "search_asx_companies @ search_nzx_companies \<noteq> []"
    by (simp add: search_nzx_companies_def)
  have repeated: "raw_name (search_nzx_companies ! 2) = raw_name (search_asx_companies ! 1)"
    by (simp add: search_nzx_companies_def search_asx_companies_def raw_def)
  have ids: "collected_ids ''2024-05-01'' (search_asx_companies @ search_nzx_companies) =
     [1 .. 12] @ [14, 15]"
    by code_simp
  have "\<exists>rows :: company list.
      collected_ids ''2024-05-01'' (search_asx_companies @ search_nzx_companies) =
        map company_id rows \<and>
      sorted_wrt (<) (map company_id rows) \<and> distinct (map company_id rows)"
    using collected_ids_unique_increasing [OF nonempty, where today = "''2024-05-01''"
        and careers = "\<lambda>i. found_devops" and linkedin = "\<lambda>i. found_nothing"
        and seek = "\<lambda>i. found_nothing"]
    by (elim exE conjE) (intro exI conjI; assumption)
  then obtain rows :: "company list" where rows:
    "collected_ids ''2024-05-01'' (search_asx_companies @ search_nzx_companies) =
       map company_id rows"
    "sorted_wrt (<) (map company_id rows)" "distinct (map company_id rows)"
    by blast
  have increasing:
    "sorted_wrt (<)
       (collected_ids ''2024-05-01'' (search_asx_companies @ search_nzx_companies)) \<and>
     distinct (collected_ids ''2024-05-01'' (search_asx_companies @ search_nzx_companies))"
    unfolding rows(1) using rows(2,3) by (intro conjI)
  have nonempty_nzx: "search_nzx_companies \<noteq> []"
    by (simp add: search_nzx_companies_def)
  have names: "distinct (map raw_name search_nzx_companies)"
    by (simp add: search_nzx_companies_def raw_def)
  have "\<exists>rows :: company list.
      collected_ids ''2024-05-01'' search_nzx_companies = map company_id rows \<and>
      (distinct (map raw_name search_nzx_companies) \<longrightarrow>
         map company_id rows = [1 .. int (length rows)])"
    using collected_ids_unique_increasing [OF nonempty_nzx, where today = "''2024-05-01''"
        and careers = "\<lambda>i. found_devops" and linkedin = "\<lambda>i. found_nothing"
        and seek = "\<lambda>i. found_nothing"]
    by (elim exE conjE) (intro exI conjI; assumption)
  then obtain rows_nzx :: "company list" where rows_nzx:
    "collected_ids ''2024-05-01'' search_nzx_companies = map company_id rows_nzx"
    "distinct (map raw_name search_nzx_companies) \<longrightarrow>
       map company_id rows_nzx = [1 .. int (length rows_nzx)]"
    by blast
  have "map company_id rows_nzx = [1 .. int (length (map company_id rows_nzx))]"
    using rows_nzx(2) names by simp
  then have contiguous: "collected_ids ''2024-05-01'' search_nzx_companies =
     [1 .. int (length (collected_ids ''2024-05-01'' search_nzx_companies))]"
    by (simp only: rows_nzx(1))
  have ids_nzx: "collected_ids ''2024-05-01'' search_nzx_companies = [1, 2, 3, 4, 5]"
    by code_simp
  show ?thesis
    by (intro conjI nonempty repeated ids increasing [THEN conjunct1]
        increasing [THEN conjunct2] nonempty_nzx names contiguous ids_nzx)
qed

text \<open>
  C1, as stated: the ids of the saved table would be 1..N without gaps. The catalog that
  \<open>main\<close> assembles has 85 rows and 74 distinct names; the saved table has 74 rows, the
  id 13 (the second \<open>Westpac Banking Corporation\<close>) is missing and the last id is 85.
\<close>

theorem collected_ids_not_contiguous:
  "collected_ids ''2024-05-01'' all_companies =
     ([1 .. 12] @ [14 .. 16] @ [19] @ [22, 23] @ [25 .. 35] @ [38 .. 43] @
      [45 .. 55] @ [57 .. 59] @ [61 .. 85]) \<and>
   length (collected_ids ''2024-05-01'' all_companies) = 74 \<and>
   13 \<notin> set (collected_ids ''2024-05-01'' all_companies) \<and>
   85 \<in> set (collected_ids ''2024-05-01'' all_companies)"
proof -
  have nonempty: "all_companies \<noteq> []"
    by (simp add: all_companies_def search_asx_companies_def)
  have "map snd (drop_dups_from fst []
          (zip (map raw_name all_companies) [1 .. int (length all_companies)])) =
     ([1 .. 12] @ [14 .. 16] @ [19] @ [22, 23] @ [25 .. 35] @ [38 .. 43] @
      [45 .. 55] @ [57 .. 59] @ [61 .. 85])"
    by code_simp
  then have ids: "collected_ids ''2024-05-01'' all_companies =
     ([1 .. 12] @ [14 .. 16] @ [19] @ [22, 23] @ [25 .. 35] @ [38 .. 43] @
      [45 .. 55] @ [57 .. 59] @ [61 .. 85])"
    by (simp only: collected_ids_names [OF nonempty])
  show ?thesis unfolding ids by simp
qed

section \<open>Properties of the Status Checker\<close>

lemma check_careers_keeps:
  "(hiring_devops r = ''Yes'' \<longrightarrow> hiring_devops (check_careers c r) = ''Yes'') \<and>
   (hiring_developers r = ''Yes'' \<longrightarrow> hiring_developers (check_careers c r) = ''Yes'')"
  by (simp add: check_careers_def Let_def)

lemma check_further_keeps:
  "(hiring_devops r = ''Yes'' \<longrightarrow> hiring_devops (check_further c r) = ''Yes'') \<and>
   (hiring_developers r = ''Yes'' \<longrightarrow> hiring_developers (check_further c r) = ''Yes'')"
  by (simp add: check_further_def Let_def)

lemma mark_no_keeps:
  "(hiring_devops r = ''Yes'' \<longrightarrow> hiring_devops (mark_no r) = ''Yes'') \<and>
   (hiring_developers r = ''Yes'' \<longrightarrow> hiring_developers (mark_no r) = ''Yes'')"
  by (simp add: mark_no_def Let_def)

lemma set_actively_hiring_keeps:
  "hiring_devops (set_actively_hiring r) = hiring_devops r \<and>
   hiring_developers (set_actively_hiring r) = hiring_developers r"
  by (simp add: set_actively_hiring_def)

lemma verify_trace_sorted:
  "sorted_wrt keeps_yes (verify_trace careers_result linkedin_result seek_result r)"
  using check_careers_keeps check_further_keeps mark_no_keeps set_actively_hiring_keeps
  by (simp add: verify_trace_def Let_def keeps_yes_def check_linkedin_def check_seek_def)

text \<open>
  C5. Take the states of a row during its iteration in order: on entry, after the careers
  page, after LinkedIn, after Seek, after the fill-in step, at the end. A role flag that is
  \<open>'Yes'\<close> in one state is \<open>'Yes'\<close> in every later state, whatever the three sources
  answer: no check and no fill-in sets it back to \<open>'No'\<close>.
\<close>

theorem hiring_flags_monotone:
  assumes "i \<le> j"
    and "j < length (verify_trace careers_result linkedin_result seek_result r)"
  shows "keeps_yes (verify_trace careers_result linkedin_result seek_result r ! i)
           (verify_trace careers_result linkedin_result seek_result r ! j)"
proof (cases "i = j")
  case True
  then show ?thesis by (simp add: keeps_yes_def)
next
  case False
  with assms have "i < j" by simp
  with assms(2) verify_trace_sorted [of careers_result linkedin_result seek_result r]
  show ?thesis by (simp add: sorted_wrt_iff_nth_less)
qed

theorem hiring_flags_monotone_witness:
  "(1::nat) \<le> 5 \<and>
   5 < length (verify_trace found_devops found_nothing found_nothing kiwibank) \<and>
   hiring_devops (verify_trace found_devops found_nothing found_nothing kiwibank ! 1) = ''Yes'' \<and>
   hiring_devops (verify_trace found_devops found_nothing found_nothing kiwibank ! 5) = ''Yes'' \<and>
   keeps_yes (verify_trace found_devops found_nothing found_nothing kiwibank ! 1)
     (verify_trace found_devops found_nothing found_nothing kiwibank ! 5)"
  using hiring_flags_monotone [of 1 5 found_devops found_nothing found_nothing kiwibank]
  by (simp add: verify_trace_def Let_def check_careers_def check_linkedin_def check_seek_def
      check_further_def mark_no_def set_actively_hiring_def found_devops_def found_nothing_def
      kiwibank_def truthy_def)

section \<open>Properties of the Contact Finder\<close>

text \<open>
  C9. \<open>generate_email\<close> is a function of its four arguments alone: it reads no random draw
  and no state, so two calls with the same first name, last name, domain and pattern
  return the same string (or raise the same \<open>IndexError\<close>).
\<close>

theorem generate_email_deterministic:
  assumes "first_name = first_name'" and "last_name = last_name'"
    and "domain = domain'" and "pattern = pattern'"
  shows "generate_email first_name last_name domain pattern =
         generate_email first_name' last_name' domain' pattern'"
  using assms by simp

theorem generate_email_deterministic_witness:
  "generate_email ''Jane'' ''Doe'' ''suncorp.com.au'' (Some ''flast@suncorp.com.au'') =
   generate_email ''Jane'' ''Doe'' ''suncorp.com.au'' (Some ''flast@suncorp.com.au'') \<and>
   generate_email ''Jane'' ''Doe'' ''suncorp.com.au'' (Some ''flast@suncorp.com.au'') =
   Inr ''jdoe@suncorp.com.au''"
  using generate_email_deterministic
    [of "''Jane''" "''Jane''" "''Doe''" "''Doe''" "''suncorp.com.au''" "''suncorp.com.au''"
        "Some ''flast@suncorp.com.au''" "Some ''flast@suncorp.com.au''"]
  by (simp add: generate_email_def lower_def lower_char_def)

lemma mset_sort_values_stable:
  "mset (sort_values_stable key rows) = mset rows"
  by (simp add: sort_values_stable_def)

lemma filter_hiring_few:
  "length (filter is_hiring df) < 100 \<Longrightarrow>
   filter_actively_hiring_companies sort_values df = filter is_hiring df"
  by (simp add: filter_actively_hiring_companies_def Let_def)

text \<open>
  C10. For every company table, and every \<open>sort_values\<close> that returns the rows it is given
  in some order: the pre-filter returns at most 100 rows; every returned row has
  \<open>actively_hiring\<close> equal to \<open>'Yes'\<close> and at least one of the two role flags equal to
  \<open>'Yes'\<close>; and when fewer than 100 rows qualify, it returns exactly the qualifying rows,
  in the order of the table.
\<close>

theorem filter_actively_hiring_companies_correct:
  assumes perm: "\<And>key rows. mset (sort_values key rows) = mset rows"
  shows "length (filter_actively_hiring_companies sort_values companies_df) \<le> 100 \<and>
    (\<forall>r \<in> set (filter_actively_hiring_companies sort_values companies_df).
       actively_hiring r = ''Yes'' \<and>
       (hiring_devops r = ''Yes'' \<or> hiring_developers r = ''Yes'')) \<and>
    (length (filter (\<lambda>r. actively_hiring r = ''Yes'' \<and>
                         (hiring_devops r = ''Yes'' \<or> hiring_developers r = ''Yes''))
               companies_df) < 100 \<longrightarrow>
     filter_actively_hiring_companies sort_values companies_df =
     filter (\<lambda>r. actively_hiring r = ''Yes'' \<and>
                 (hiring_devops r = ''Yes'' \<or> hiring_developers r = ''Yes''))
       companies_df)"
proof -
  have set_sort: "set (sort_values key rows) = set rows" for key rows
    using perm [of key rows] by (metis set_mset_mset)
  have hiring: "is_hiring = (\<lambda>r. actively_hiring r = ''Yes'' \<and>
                      (hiring_devops r = ''Yes'' \<or> hiring_developers r = ''Yes''))"
    by (simp add: is_hiring_def fun_eq_iff)
  let ?out = "filter_actively_hiring_companies sort_values companies_df"
  have len: "length ?out \<le> 100"
    by (simp add: filter_actively_hiring_companies_def Let_def)
  have sub: "set ?out \<subseteq> set (filter is_hiring companies_df)"
    by (auto simp add: filter_actively_hiring_companies_def Let_def set_sort dest: in_set_takeD)
  have mem: "\<forall>r \<in> set ?out. is_hiring r"
    using sub by auto
  show ?thesis
    using len mem filter_hiring_few [of companies_df sort_values] unfolding hiring by blast
qed

theorem filter_actively_hiring_companies_correct_witness:
  "mset (sort_values_stable company_size [suncorp, kiwibank]) = mset [suncorp, kiwibank] \<and>
   filter_actively_hiring_companies sort_values_stable [suncorp, kiwibank] = [suncorp] \<and>
   actively_hiring suncorp = ''Yes'' \<and> hiring_devops suncorp = ''Yes''"
  using filter_actively_hiring_companies_correct
    [of sort_values_stable "[suncorp, kiwibank]", OF mset_sort_values_stable]
  by (simp add: mset_sort_values_stable suncorp_def kiwibank_def)

lemma split_placeholder:
  "split ''Technology Decision Maker'' = [''Technology'', ''Decision'', ''Maker'']"
  by (simp add: split_def is_space_def)

lemma generate_email_nonempty:
  assumes "first_name \<noteq> []" and "last_name \<noteq> []"
  shows "\<exists>em. generate_email first_name last_name domain pattern = Inr em"
proof -
  obtain f fs where f: "lower first_name = f # fs"
    using assms(1) by (cases first_name) (simp_all add: lower_def)
  obtain l ls where l: "lower last_name = l # ls"
    using assms(2) by (cases last_name) (simp_all add: lower_def)
  show ?thesis
    by (simp add: generate_email_def Let_def f l)
qed

lemma process_placeholder:
  "\<exists>e. process_exec lk row company_domain email_pattern i placeholder = Inr [e] \<and>
       executive_name e = ''Technology Decision Maker'' \<and>
       executive_title e = ''CTO or equivalent'' \<and>
       source e = ''Placeholder - requires manual research'' \<and>
       exec_company_id e = company_id row"
proof (cases "truthy company_domain \<and> truthy email_pattern")
  case True
  obtain em where
    "generate_email ''Technology'' ''Maker'' (the company_domain) email_pattern = Inr em"
    using generate_email_nonempty [of "''Technology''" "''Maker''"] by auto
  with True show ?thesis
    by (simp add: process_exec_def placeholder_def split_placeholder Let_def)
next
  case False
  then show ?thesis
    by (auto simp add: process_exec_def placeholder_def split_placeholder Let_def)
qed

text \<open>
  C7. For every company row and whatever the finders and the random draws return: if the
  combined candidates of the two finders are empty, the candidate list becomes the one
  placeholder, named \<open>Technology Decision Maker\<close> with the title \<open>CTO or equivalent\<close>, and
  the company gets exactly one contact row, with that name and title; and if the only
  candidate has the name \<open>Unknown\<close>, the company gets no contact row.
\<close>

theorem enrich_company_placeholder_and_unknown:
  "(combine_execs (linkedin_found lk)
      (if truthy (company_website row) then website_found lk else []) = [] \<longrightarrow>
    all_execs_of lk row = [placeholder] \<and>
    cand_name placeholder = ''Technology Decision Maker'' \<and>
    cand_title placeholder = ''CTO or equivalent'' \<and>
    (\<exists>e. enrich_company lk row = Inr [e] \<and>
         executive_name e = ''Technology Decision Maker'' \<and>
         executive_title e = ''CTO or equivalent'' \<and>
         exec_company_id e = company_id row)) \<and>
   (\<forall>ex. combine_execs (linkedin_found lk)
      (if truthy (company_website row) then website_found lk else []) = [ex] \<and>
      cand_name ex = ''Unknown'' \<longrightarrow>
    enrich_company lk row = Inr [])"
proof (intro conjI impI allI)
  assume empty: "combine_execs (linkedin_found lk)
      (if truthy (company_website row) then website_found lk else []) = []"
  then show all: "all_execs_of lk row = [placeholder]"
    by (simp add: all_execs_of_def Let_def)
  show "cand_name placeholder = ''Technology Decision Maker''"
    and "cand_title placeholder = ''CTO or equivalent''"
    by (simp_all add: placeholder_def)
  obtain e where e: "process_exec lk row
        (if truthy (company_website row) then extract_domain_from_url (company_website row)
         else None)
        (if truthy (if truthy (company_website row)
                    then extract_domain_from_url (company_website row) else None)
         then Some (discover_email_pattern
                      (the (if truthy (company_website row)
                            then extract_domain_from_url (company_website row) else None))
                      (pattern_pick lk))
         else None) 0 placeholder = Inr [e]"
    and "executive_name e = ''Technology Decision Maker''"
    and "executive_title e = ''CTO or equivalent''"
    and "exec_company_id e = company_id row"
    using process_placeholder by blast
  then show "\<exists>e. enrich_company lk row = Inr [e] \<and>
         executive_name e = ''Technology Decision Maker'' \<and>
         executive_title e = ''CTO or equivalent'' \<and>
         exec_company_id e = company_id row"
    by (simp add: enrich_company_def Let_def all)
next
  fix ex
  assume "combine_execs (linkedin_found lk)
      (if truthy (company_website row) then website_found lk else []) = [ex] \<and>
      cand_name ex = ''Unknown''"
  then show "enrich_company lk row = Inr []"
    by (simp add: enrich_company_def all_execs_of_def Let_def process_exec_def)
qed

theorem enrich_company_placeholder_and_unknown_witness:
  "combine_execs (linkedin_found nobody_found)
      (if truthy (company_website kiwibank) then website_found nobody_found else []) = [] \<and>
   enrich_company nobody_found kiwibank =
     Inr [\<lparr>exec_company_id = 15, executive_name = ''Technology Decision Maker'',
           executive_title = ''CTO or equivalent'', exec_linkedin_url = None,
           email = Some ''tmaker@kiwibank.co.nz'', phone = None,
           source = ''Placeholder - requires manual research'',
           verification_status = ''Domain MX Verified''\<rparr>] \<and>
   combine_execs (linkedin_found unknown_found)
      (if truthy (company_website kiwibank) then website_found unknown_found else []) =
     linkedin_found unknown_found \<and>
   map cand_name (linkedin_found unknown_found) = [''Unknown''] \<and>
   enrich_company unknown_found kiwibank = Inr []"
proof -
  have none: "combine_execs (linkedin_found nobody_found)
      (if truthy (company_website kiwibank) then website_found nobody_found else []) = []"
    by (simp add: combine_execs_def nobody_found_def)
  have one: "combine_execs (linkedin_found unknown_found)
      (if truthy (company_website kiwibank) then website_found unknown_found else []) =
     linkedin_found unknown_found"
    by (simp add: combine_execs_def unknown_found_def)
  have name: "map cand_name (linkedin_found unknown_found) = [''Unknown'']"
    by (simp add: unknown_found_def)
  have placeholder_row: "\<exists>e. enrich_company nobody_found kiwibank = Inr [e] \<and>
         executive_name e = ''Technology Decision Maker'' \<and>
         executive_title e = ''CTO or equivalent'' \<and>
         exec_company_id e = company_id kiwibank"
    using enrich_company_placeholder_and_unknown [of nobody_found kiwibank] none by blast
  have no_row: "enrich_company unknown_found kiwibank = Inr []"
    using enrich_company_placeholder_and_unknown [of unknown_found kiwibank] one name
    by (cases "linkedin_found unknown_found") auto
  have row: "enrich_company nobody_found kiwibank =
     Inr [\<lparr>exec_company_id = 15, executive_name = ''Technology Decision Maker'',
           executive_title = ''CTO or equivalent'', exec_linkedin_url = None,
           email = Some ''tmaker@kiwibank.co.nz'', phone = None,
           source = ''Placeholder - requires manual research'',
           verification_status = ''Domain MX Verified''\<rparr>]"
    by code_simp
  show ?thesis
    using none one name placeholder_row no_row row by simp
qed

section \<open>Properties of the Consolidator\<close>

text \<open>
  C2. The score counts seven conditions, so it reaches 7, while the star string is built
  for a scale of five: for the merged row of a company and a contact with no empty column
  the score is 7 and the string is seven filled stars, not five glyphs.
\<close>

theorem calculate_quality_seven_stars:
  "quality_score suncorp_jane = 7 \<and>
   calculate_quality suncorp_jane =
     [Filled_star, Filled_star, Filled_star, Filled_star, Filled_star, Filled_star,
      Filled_star]"
  by (simp add: calculate_quality_def quality_score_def suncorp_jane_def suncorp_def jane_def
      col_executive_name_def col_executive_title_def col_email_def col_phone_def
      col_linkedin_url_y_def numeral_eq_Suc)

text \<open>
  C3, as stated: the opportunity score of the example row would be 3. It is 7.
\<close>

theorem score_opportunity_example_not_three:
  "score_opportunity suncorp_report = 7 \<and> score_opportunity suncorp_report \<noteq> 3"
  by (simp add: score_opportunity_def suncorp_report_def)

text \<open>
  C3, amended. For a report row with both hiring flags \<open>'Yes'\<close>, an email and a phone
  number, the opportunity score is 7 (3 for the two roles, 2 for the email, 2 for the
  phone), plus 1 when the contact has a name, plus 3, 2 or 1 when the company size is
  above 10000, 1000 or 100; and the note starts with the two fragments, joined by "; ".
\<close>

theorem opportunity_of_complete_contact:
  assumes "Hiring_DevOps row = ''Yes''" and "Hiring_Software_Developers row = ''Yes''"
    and "C_Level_Email row \<noteq> None" and "C_Level_Phone row \<noteq> None"
  shows "score_opportunity row =
           7 + (if C_Level_Contact_Name row \<noteq> None then 1 else 0) +
           (case Company_Size row of
              None \<Rightarrow> 0
            | Some sz \<Rightarrow>
                if sz > 10000 then 3 else if sz > 1000 then 2 else if sz > 100 then 1 else 0) \<and>
         7 \<le> score_opportunity row \<and>
         prefix ''Actively hiring for both DevOps and Software Developer roles; Complete C-level contact information available''
           (create_opportunity_note row)"
  using assms
  by (simp add: score_opportunity_def create_opportunity_note_def opportunity_notes_def
      split: option.split)

theorem opportunity_of_complete_contact_witness:
  "Hiring_DevOps suncorp_report = ''Yes'' \<and> Hiring_Software_Developers suncorp_report = ''Yes'' \<and>
   C_Level_Email suncorp_report \<noteq> None \<and> C_Level_Phone suncorp_report \<noteq> None \<and>
   score_opportunity suncorp_report = 7 \<and>
   prefix ''Actively hiring for both DevOps and Software Developer roles; Complete C-level contact information available''
     (create_opportunity_note suncorp_report)"
  using opportunity_of_complete_contact [of suncorp_report]
  by (simp add: suncorp_report_def)

lemma clean_company_names_fst:
  "clean_company_names re_sub companies = Inr cleaned \<Longrightarrow> map fst cleaned = companies"
  by (induction companies arbitrary: cleaned) (auto split: sum.splits)

lemma merge_left_covers:
  "(c, cl) \<in> set left_rows \<Longrightarrow> \<exists>m \<in> set (merge_left left_rows right_rows). entity m = c"
proof -
  assume mem: "(c, cl) \<in> set left_rows"
  let ?rows = "case filter (\<lambda>e. exec_company_id e = company_id c) right_rows of
           [] \<Rightarrow> [\<lparr>entity = c, clean_company_name = cl, contact = None\<rparr>]
         | matches \<Rightarrow>
             map (\<lambda>e. \<lparr>entity = c, clean_company_name = cl, contact = Some e\<rparr>) matches"
  have "\<exists>m \<in> set ?rows. entity m = c"
    by (cases "filter (\<lambda>e. exec_company_id e = company_id c) right_rows") simp_all
  then obtain m where m: "m \<in> set ?rows" "entity m = c" by blast
  have "set ?rows \<subseteq> set (merge_left left_rows right_rows)"
    using mem by (force simp add: merge_left_def)
  with m show ?thesis by blast
qed

lemma merge_left_unmatched:
  assumes "\<forall>e \<in> set right_rows. exec_company_id e \<noteq> i"
  shows "filter (\<lambda>m. company_id (entity m) = i) (merge_left left_rows right_rows) =
         map (\<lambda>(c, cl). \<lparr>entity = c, clean_company_name = cl, contact = None\<rparr>)
           (filter (\<lambda>(c, cl). company_id c = i) left_rows)"
proof (induction left_rows)
  case Nil
  then show ?case by (simp add: merge_left_def)
next
  case (Cons a left_rows)
  obtain c cl where a: "a = (c, cl)" by (cases a)
  have step: "merge_left ((c, cl) # left_rows) right_rows =
      (case filter (\<lambda>e. exec_company_id e = company_id c) right_rows of
           [] \<Rightarrow> [\<lparr>entity = c, clean_company_name = cl, contact = None\<rparr>]
         | matches \<Rightarrow>
             map (\<lambda>e. \<lparr>entity = c, clean_company_name = cl, contact = Some e\<rparr>) matches) @
      merge_left left_rows right_rows"
    by (simp add: merge_left_def)
  show ?case
  proof (cases "company_id c = i")
    case True
    with assms have "filter (\<lambda>e. exec_company_id e = company_id c) right_rows = []"
      by (simp add: filter_empty_conv)
    with True Cons.IH show ?thesis by (simp add: a step)
  next
    case False
    then show ?thesis using Cons.IH
      by (simp add: a step split: list.split)
  qed
qed

lemma merged_sorted_mset:
  assumes perm: "\<And>key rows. mset (sort_values key rows) = mset rows"
  shows "mset (merged_sorted sort_values cleaned executives_df) =
         mset (merge_left cleaned executives_df)"
  by (simp add: merged_sorted_def Let_def perm)

lemma length_filter_mset: "mset xs = mset ys \<Longrightarrow> length (filter P xs) = length (filter P ys)"
proof -
  assume "mset xs = mset ys"
  then have "filter_mset P (mset xs) = filter_mset P (mset ys)" by simp
  then have "mset (filter P xs) = mset (filter P ys)" by simp
  then have "size (mset (filter P xs)) = size (mset (filter P ys))" by simp
  then show ?thesis by (simp only: size_mset)
qed

lemma report_of_no_contact:
  "contact m = None \<Longrightarrow>
   C_Level_Contact_Name (report_of d m) = None \<and> C_Level_Title (report_of d m) = None \<and>
   C_Level_LinkedIn (report_of d m) = None \<and> C_Level_Email (report_of d m) = None \<and>
   C_Level_Phone (report_of d m) = None"
  by (simp add: report_of_def col_executive_name_def col_executive_title_def
      col_linkedin_url_y_def col_email_def col_phone_def)

lemma left_outer_join_unmatched:
  assumes perm: "\<And>key rows. mset (sort_values key rows) = mset rows"
    and cleaned: "clean_company_names re_sub companies_df = Inr cleaned"
  shows
    "(\<forall>c \<in> set companies_df.
        \<exists>m \<in> set (merged_sorted sort_values cleaned executives_df).
          company_id (entity m) = company_id c) \<and>
     (\<forall>c \<in> set companies_df.
        (\<forall>e \<in> set executives_df. exec_company_id e \<noteq> company_id c) \<longrightarrow>
        length (filter (\<lambda>m. company_id (entity m) = company_id c)
                  (merged_sorted sort_values cleaned executives_df)) =
        length (filter (\<lambda>c'. company_id c' = company_id c) companies_df) \<and>
        (distinct (map company_id companies_df) \<longrightarrow>
         length (filter (\<lambda>m. company_id (entity m) = company_id c)
                  (merged_sorted sort_values cleaned executives_df)) = 1) \<and>
        (\<forall>m \<in> set (merged_sorted sort_values cleaned executives_df).
           company_id (entity m) = company_id c \<longrightarrow>
           contact m = None \<and>
           (\<forall>d. C_Level_Contact_Name (report_of d m) = None \<and>
                C_Level_Title (report_of d m) = None \<and>
                C_Level_LinkedIn (report_of d m) = None \<and>
                C_Level_Email (report_of d m) = None \<and>
                C_Level_Phone (report_of d m) = None))) \<and>
     (\<exists>date. prepare_final_dataset re_sub sort_values to_datetime today
                companies_df executives_df =
              Inr (map (\<lambda>m. report_of (date m) m)
                     (merged_sorted sort_values cleaned executives_df)))"
proof -
  let ?M = "merged_sorted sort_values cleaned executives_df"
  let ?J = "merge_left cleaned executives_df"
  have ms: "mset ?M = mset ?J" using merged_sorted_mset [OF perm] .
  then have set_eq: "set ?M = set ?J" by (metis set_mset_mset)
  have fst: "map fst cleaned = companies_df" using clean_company_names_fst [OF cleaned] .
  have cover: "\<forall>c \<in> set companies_df. \<exists>m \<in> set ?M. company_id (entity m) = company_id c"
  proof
    fix c assume "c \<in> set companies_df"
    then obtain cl where "(c, cl) \<in> set cleaned" using fst by force
    then obtain m where "m \<in> set ?J" "entity m = c"
      using merge_left_covers by blast
    then show "\<exists>m \<in> set ?M. company_id (entity m) = company_id c"
      using set_eq by auto
  qed
  have unmatched: "length (filter (\<lambda>m. company_id (entity m) = company_id c) ?M) =
        length (filter (\<lambda>c'. company_id c' = company_id c) companies_df) \<and>
        (distinct (map company_id companies_df) \<longrightarrow>
         length (filter (\<lambda>m. company_id (entity m) = company_id c) ?M) = 1) \<and>
        (\<forall>m \<in> set ?M. company_id (entity m) = company_id c \<longrightarrow>
           contact m = None \<and>
           (\<forall>d. C_Level_Contact_Name (report_of d m) = None \<and>
                C_Level_Title (report_of d m) = None \<and>
                C_Level_LinkedIn (report_of d m) = None \<and>
                C_Level_Email (report_of d m) = None \<and>
                C_Level_Phone (report_of d m) = None))"
    if c: "c \<in> set companies_df"
      and no: "\<forall>e \<in> set executives_df. exec_company_id e \<noteq> company_id c" for c
  proof -
    let ?i = "company_id c"
    have f: "filter (\<lambda>m. company_id (entity m) = ?i) ?J =
         map (\<lambda>(c, cl). \<lparr>entity = c, clean_company_name = cl, contact = None\<rparr>)
           (filter (\<lambda>(c, cl). company_id c = ?i) cleaned)"
      using merge_left_unmatched [OF no] .
    have "length (filter (\<lambda>(c, cl). company_id c = ?i) cleaned) =
          length (filter (\<lambda>c'. company_id c' = ?i) (map fst cleaned))"
      by (simp add: filter_map comp_def case_prod_unfold)
    then have count: "length (filter (\<lambda>m. company_id (entity m) = ?i) ?M) =
        length (filter (\<lambda>c'. company_id c' = ?i) companies_df)"
      using length_filter_mset [OF ms] f fst by simp
    have one: "length (filter (\<lambda>c'. company_id c' = ?i) companies_df) = 1"
      if d: "distinct (map company_id companies_df)"
    proof -
      have "{x. x = ?i} \<inter> set (map company_id companies_df) = {?i}"
        using c by auto
      then have "length (filter (\<lambda>x. x = ?i) (map company_id companies_df)) = 1"
        using distinct_length_filter [OF d, of "\<lambda>x. x = ?i"] by simp
      then show ?thesis by (simp add: filter_map comp_def)
    qed
    have nulls: "contact m = None" if "m \<in> set ?M" "company_id (entity m) = ?i" for m
    proof -
      from that set_eq have "m \<in> set (filter (\<lambda>m. company_id (entity m) = ?i) ?J)" by simp
      then show ?thesis unfolding f by auto
    qed
    have cols: "\<forall>d. C_Level_Contact_Name (report_of d m) = None \<and>
                C_Level_Title (report_of d m) = None \<and>
                C_Level_LinkedIn (report_of d m) = None \<and>
                C_Level_Email (report_of d m) = None \<and>
                C_Level_Phone (report_of d m) = None"
      if "m \<in> set ?M" "company_id (entity m) = ?i" for m
      using report_of_no_contact [OF nulls [OF that]] by blast
    show ?thesis
    proof (intro conjI impI ballI)
      show "length (filter (\<lambda>m. company_id (entity m) = ?i) ?M) =
        length (filter (\<lambda>c'. company_id c' = ?i) companies_df)"
        by (rule count)
      show "length (filter (\<lambda>m. company_id (entity m) = ?i) ?M) = 1"
        if "distinct (map company_id companies_df)"
        using count one [OF that] by simp
      show "contact m = None" if "m \<in> set ?M" "company_id (entity m) = ?i" for m
        by (rule nulls [OF that])
      show "\<forall>d. C_Level_Contact_Name (report_of d m) = None \<and>
                C_Level_Title (report_of d m) = None \<and>
                C_Level_LinkedIn (report_of d m) = None \<and>
                C_Level_Email (report_of d m) = None \<and>
                C_Level_Phone (report_of d m) = None"
        if "m \<in> set ?M" "company_id (entity m) = ?i" for m
        by (rule cols [OF that])
    qed
  qed
  have final: "\<exists>date. prepare_final_dataset re_sub sort_values to_datetime today
                companies_df executives_df =
              Inr (map (\<lambda>m. report_of (date m) m) ?M)"
  proof (rule exI)
    show "prepare_final_dataset re_sub sort_values to_datetime today
                companies_df executives_df =
              Inr (map (\<lambda>m. report_of
                 ((\<lambda>m. if list_all (\<lambda>m. to_datetime (last_verified (entity m)) \<noteq> None) ?M
                       then the (to_datetime (last_verified (entity m))) else today) m) m) ?M)"
      by (simp add: prepare_final_dataset_def cleaned Let_def)
  qed
  show ?thesis
  proof (intro conjI)
    show "\<forall>c \<in> set companies_df. \<exists>m \<in> set ?M. company_id (entity m) = company_id c"
      by (rule cover)
    show "\<exists>date. prepare_final_dataset re_sub sort_values to_datetime today
                companies_df executives_df =
              Inr (map (\<lambda>m. report_of (date m) m) ?M)"
      by (rule final)
  next
    show "\<forall>c \<in> set companies_df.
        (\<forall>e \<in> set executives_df. exec_company_id e \<noteq> company_id c) \<longrightarrow>
        length (filter (\<lambda>m. company_id (entity m) = company_id c) ?M) =
        length (filter (\<lambda>c'. company_id c' = company_id c) companies_df) \<and>
        (distinct (map company_id companies_df) \<longrightarrow>
         length (filter (\<lambda>m. company_id (entity m) = company_id c) ?M) = 1) \<and>
        (\<forall>m \<in> set ?M.
           company_id (entity m) = company_id c \<longrightarrow>
           contact m = None \<and>
           (\<forall>d. C_Level_Contact_Name (report_of d m) = None \<and>
                C_Level_Title (report_of d m) = None \<and>
                C_Level_LinkedIn (report_of d m) = None \<and>
                C_Level_Email (report_of d m) = None \<and>
                C_Level_Phone (report_of d m) = None))"
    proof (intro ballI impI)
      fix c
      assume "c \<in> set companies_df"
        and "\<forall>e \<in> set executives_df. exec_company_id e \<noteq> company_id c"
      then show "length (filter (\<lambda>m. company_id (entity m) = company_id c) ?M) =
        length (filter (\<lambda>c'. company_id c' = company_id c) companies_df) \<and>
        (distinct (map company_id companies_df) \<longrightarrow>
         length (filter (\<lambda>m. company_id (entity m) = company_id c) ?M) = 1) \<and>
        (\<forall>m \<in> set ?M.
           company_id (entity m) = company_id c \<longrightarrow>
           contact m = None \<and>
           (\<forall>d. C_Level_Contact_Name (report_of d m) = None \<and>
                C_Level_Title (report_of d m) = None \<and>
                C_Level_LinkedIn (report_of d m) = None \<and>
                C_Level_Email (report_of d m) = None \<and>
                C_Level_Phone (report_of d m) = None))"
        by (rule unmatched)
    qed
  qed
qed

lemma merge_left_attaches:
  assumes "(c, cl) \<in> set left_rows" and "e \<in> set right_rows"
    and "exec_company_id e = company_id c"
  shows "\<lparr>entity = c, clean_company_name = cl, contact = Some e\<rparr>
           \<in> set (merge_left left_rows right_rows)"
proof -
  let ?matches = "filter (\<lambda>e. exec_company_id e = company_id c) right_rows"
  let ?rows = "case ?matches of
           [] \<Rightarrow> [\<lparr>entity = c, clean_company_name = cl, contact = None\<rparr>]
         | matches \<Rightarrow>
             map (\<lambda>e. \<lparr>entity = c, clean_company_name = cl, contact = Some e\<rparr>) matches"
  have "e \<in> set ?matches" using assms(2,3) by simp
  then have "\<lparr>entity = c, clean_company_name = cl, contact = Some e\<rparr> \<in> set ?rows"
    by (cases ?matches) auto
  moreover have "set ?rows \<subseteq> set (merge_left left_rows right_rows)"
    using assms(1) by (force simp add: merge_left_def)
  ultimately show ?thesis by blast
qed

lemma merge_left_sound:
  assumes "m \<in> set (merge_left left_rows right_rows)"
  shows "(entity m, clean_company_name m) \<in> set left_rows \<and>
         (case contact m of
            None \<Rightarrow> \<forall>e \<in> set right_rows. exec_company_id e \<noteq> company_id (entity m)
          | Some e \<Rightarrow> e \<in> set right_rows \<and> exec_company_id e = company_id (entity m))"
proof -
  from assms obtain c cl where mem: "(c, cl) \<in> set left_rows"
    and m: "m \<in> set (case filter (\<lambda>e. exec_company_id e = company_id c) right_rows of
           [] \<Rightarrow> [\<lparr>entity = c, clean_company_name = cl, contact = None\<rparr>]
         | matches \<Rightarrow>
             map (\<lambda>e. \<lparr>entity = c, clean_company_name = cl, contact = Some e\<rparr>) matches)"
    by (auto simp add: merge_left_def)
  show ?thesis
  proof (cases "filter (\<lambda>e. exec_company_id e = company_id c) right_rows")
    case Nil
    then have "\<forall>e \<in> set right_rows. exec_company_id e \<noteq> company_id c"
      by (simp add: filter_empty_conv)
    with m Nil mem show ?thesis by simp
  next
    case (Cons x xs)
    with m obtain e where e: "e \<in> set (x # xs)"
      and me: "m = \<lparr>entity = c, clean_company_name = cl, contact = Some e\<rparr>"
      by auto
    from e have "e \<in> set (filter (\<lambda>e. exec_company_id e = company_id c) right_rows)"
      by (simp only: Cons)
    then have "e \<in> set right_rows \<and> exec_company_id e = company_id c" by simp
    with me mem show ?thesis by simp
  qed
qed

lemma merge_left_length:
  "length (merge_left left_rows right_rows) =
   sum_list (map (\<lambda>p. max 1 (length (filter (\<lambda>e. exec_company_id e = company_id (fst p))
                                          right_rows))) left_rows)"
proof (induction left_rows)
  case Nil
  then show ?case by (simp add: merge_left_def)
next
  case (Cons a left_rows)
  obtain c cl where a: "a = (c, cl)" by (cases a)
  have step: "merge_left ((c, cl) # left_rows) right_rows =
      (case filter (\<lambda>e. exec_company_id e = company_id c) right_rows of
           [] \<Rightarrow> [\<lparr>entity = c, clean_company_name = cl, contact = None\<rparr>]
         | matches \<Rightarrow>
             map (\<lambda>e. \<lparr>entity = c, clean_company_name = cl, contact = Some e\<rparr>) matches) @
      merge_left left_rows right_rows"
    by (simp add: merge_left_def)
  show ?case
    using Cons.IH by (simp add: a step split: list.split)
qed

lemma left_outer_join_matched:
  assumes perm: "\<And>key rows. mset (sort_values key rows) = mset rows"
    and cleaned: "clean_company_names re_sub companies_df = Inr cleaned"
  shows
    "(\<forall>c \<in> set companies_df. \<forall>e \<in> set executives_df.
        exec_company_id e = company_id c \<longrightarrow>
        (\<exists>m \<in> set (merged_sorted sort_values cleaned executives_df).
           entity m = c \<and> contact m = Some e)) \<and>
     (\<forall>m \<in> set (merged_sorted sort_values cleaned executives_df).
        entity m \<in> set companies_df \<and>
        (case contact m of
           None \<Rightarrow> \<forall>e \<in> set executives_df. exec_company_id e \<noteq> company_id (entity m)
         | Some e \<Rightarrow> e \<in> set executives_df \<and> exec_company_id e = company_id (entity m))) \<and>
     length (merged_sorted sort_values cleaned executives_df) =
       sum_list (map (\<lambda>c. max 1 (length (filter (\<lambda>e. exec_company_id e = company_id c)
                                             executives_df))) companies_df)"
proof -
  let ?M = "merged_sorted sort_values cleaned executives_df"
  let ?J = "merge_left cleaned executives_df"
  have ms: "mset ?M = mset ?J" using merged_sorted_mset [OF perm] .
  then have set_eq: "set ?M = set ?J" by (metis set_mset_mset)
  have len_eq: "length ?M = length ?J" using ms by (metis size_mset)
  have fst: "map fst cleaned = companies_df" using clean_company_names_fst [OF cleaned] .
  have attached: "\<exists>m \<in> set ?M. entity m = c \<and> contact m = Some e"
    if c: "c \<in> set companies_df" and e: "e \<in> set executives_df"
      and eq: "exec_company_id e = company_id c" for c e
  proof -
    from c obtain cl where "(c, cl) \<in> set cleaned" using fst by force
    then have "\<lparr>entity = c, clean_company_name = cl, contact = Some e\<rparr> \<in> set ?J"
      using e eq by (rule merge_left_attaches)
    then show ?thesis unfolding set_eq by force
  qed
  have sound: "entity m \<in> set companies_df \<and>
        (case contact m of
           None \<Rightarrow> \<forall>e \<in> set executives_df. exec_company_id e \<noteq> company_id (entity m)
         | Some e \<Rightarrow> e \<in> set executives_df \<and> exec_company_id e = company_id (entity m))"
    if "m \<in> set ?M" for m
  proof -
    from that have "m \<in> set ?J" unfolding set_eq .
    then have s: "(entity m, clean_company_name m) \<in> set cleaned \<and>
         (case contact m of
            None \<Rightarrow> \<forall>e \<in> set executives_df. exec_company_id e \<noteq> company_id (entity m)
          | Some e \<Rightarrow> e \<in> set executives_df \<and> exec_company_id e = company_id (entity m))"
      by (rule merge_left_sound)
    then have "entity m \<in> fst ` set cleaned" by force
    then have "entity m \<in> set companies_df" using fst by (metis set_map)
    with s show ?thesis by blast
  qed
  have "length ?J =
      sum_list (map (\<lambda>p. max 1 (length (filter (\<lambda>e. exec_company_id e = company_id (fst p))
                                          executives_df))) cleaned)"
    by (rule merge_left_length)
  also have "\<dots> = sum_list (map (\<lambda>c. max 1 (length (filter (\<lambda>e. exec_company_id e = company_id c)
                                             executives_df))) (map fst cleaned))"
    by (simp add: comp_def)
  finally have count: "length ?M =
       sum_list (map (\<lambda>c. max 1 (length (filter (\<lambda>e. exec_company_id e = company_id c)
                                             executives_df))) companies_df)"
    using len_eq fst by simp
  show ?thesis
  proof (intro conjI ballI impI)
    show "\<exists>m \<in> set ?M. entity m = c \<and> contact m = Some e"
      if "c \<in> set companies_df" "e \<in> set executives_df"
        "exec_company_id e = company_id c" for c e
      using that by (rule attached)
    show "entity m \<in> set companies_df" if "m \<in> set ?M" for m
      using sound [OF that] by (rule conjunct1)
    show "case contact m of
           None \<Rightarrow> \<forall>e \<in> set executives_df. exec_company_id e \<noteq> company_id (entity m)
         | Some e \<Rightarrow> e \<in> set executives_df \<and> exec_company_id e = company_id (entity m)"
      if "m \<in> set ?M" for m
      using sound [OF that] by (rule conjunct2)
    show "length ?M =
       sum_list (map (\<lambda>c. max 1 (length (filter (\<lambda>e. exec_company_id e = company_id c)
                                             executives_df))) companies_df)"
      by (rule count)
  qed
qed

text \<open>
  C6. The join is a left outer join. For every \<open>sort_values\<close> that returns the rows it is
  given in some order, and company tables whose names are all strings:
  every company id of the company table is the id of at least one row of the joined table;
  a company whose id no contact has gets as many rows as it has in the company table (one,
  when the ids are distinct), each without contact, so that the five contact columns of its
  report row are empty;
  every contact is attached to every company with its id, in a row of its own;
  every row of the joined table is a company of the company table, with a contact of the
  contact table that has its id or, when there is none, without contact;
  the joined table has one row per company and contact with the company's id and one row
  per company without contact, and no other row;
  and \<open>prepare_final_dataset\<close> returns one report row for each row of the joined table.
\<close>

theorem left_outer_join:
  assumes perm: "\<And>key rows. mset (sort_values key rows) = mset rows"
    and cleaned: "clean_company_names re_sub companies_df = Inr cleaned"
  shows
    "(\<forall>c \<in> set companies_df.
        \<exists>m \<in> set (merged_sorted sort_values cleaned executives_df).
          company_id (entity m) = company_id c) \<and>
     (\<forall>c \<in> set companies_df.
        (\<forall>e \<in> set executives_df. exec_company_id e \<noteq> company_id c) \<longrightarrow>
        length (filter (\<lambda>m. company_id (entity m) = company_id c)
                  (merged_sorted sort_values cleaned executives_df)) =
        length (filter (\<lambda>c'. company_id c' = company_id c) companies_df) \<and>
        (distinct (map company_id companies_df) \<longrightarrow>
         length (filter (\<lambda>m. company_id (entity m) = company_id c)
                  (merged_sorted sort_values cleaned executives_df)) = 1) \<and>
        (\<forall>m \<in> set (merged_sorted sort_values cleaned executives_df).
           company_id (entity m) = company_id c \<longrightarrow>
           contact m = None \<and>
           (\<forall>d. C_Level_Contact_Name (report_of d m) = None \<and>
                C_Level_Title (report_of d m) = None \<and>
                C_Level_LinkedIn (report_of d m) = None \<and>
                C_Level_Email (report_of d m) = None \<and>
                C_Level_Phone (report_of d m) = None))) \<and>
     (\<exists>date. prepare_final_dataset re_sub sort_values to_datetime today
                companies_df executives_df =
              Inr (map (\<lambda>m. report_of (date m) m)
                     (merged_sorted sort_values cleaned executives_df))) \<and>
     (\<forall>c \<in> set companies_df. \<forall>e \<in> set executives_df.
        exec_company_id e = company_id c \<longrightarrow>
        (\<exists>m \<in> set (merged_sorted sort_values cleaned executives_df).
           entity m = c \<and> contact m = Some e)) \<and>
     (\<forall>m \<in> set (merged_sorted sort_values cleaned executives_df).
        entity m \<in> set companies_df \<and>
        (case contact m of
           None \<Rightarrow> \<forall>e \<in> set executives_df. exec_company_id e \<noteq> company_id (entity m)
         | Some e \<Rightarrow> e \<in> set executives_df \<and> exec_company_id e = company_id (entity m))) \<and>
     length (merged_sorted sort_values cleaned executives_df) =
       sum_list (map (\<lambda>c. max 1 (length (filter (\<lambda>e. exec_company_id e = company_id c)
                                             executives_df))) companies_df)"
proof -
  note unmatched = left_outer_join_unmatched [OF perm cleaned,
      where executives_df = executives_df and to_datetime = to_datetime and today = today]
  note matched = left_outer_join_matched [OF perm cleaned,
      where executives_df = executives_df]
  show ?thesis
    by (intro conjI unmatched [THEN conjunct1] unmatched [THEN conjunct2, THEN conjunct1]
        unmatched [THEN conjunct2, THEN conjunct2] matched [THEN conjunct1]
        matched [THEN conjunct2, THEN conjunct1] matched [THEN conjunct2, THEN conjunct2])
qed

theorem left_outer_join_witness:
  "clean_company_names re_sub_ascii [suncorp, kiwibank] =
     Inr [(suncorp, ''Suncorp''), (kiwibank, ''Kiwibank'')] \<and>
   exec_company_id jane = company_id suncorp \<and>
   exec_company_id john = company_id suncorp \<and>
   exec_company_id jane \<noteq> company_id kiwibank \<and>
   exec_company_id john \<noteq> company_id kiwibank \<and>
   distinct (map company_id [suncorp, kiwibank]) \<and>
   merged_sorted sort_values_stable [(suncorp, ''Suncorp''), (kiwibank, ''Kiwibank'')]
       [jane, john] =
     [\<lparr>entity = suncorp, clean_company_name = ''Suncorp'', contact = Some jane\<rparr>,
      \<lparr>entity = suncorp, clean_company_name = ''Suncorp'', contact = Some john\<rparr>,
      \<lparr>entity = kiwibank, clean_company_name = ''Kiwibank'', contact = None\<rparr>] \<and>
   length (filter (\<lambda>m. company_id (entity m) = company_id kiwibank)
             (merged_sorted sort_values_stable
                [(suncorp, ''Suncorp''), (kiwibank, ''Kiwibank'')] [jane, john])) = 1 \<and>
   length (merged_sorted sort_values_stable
             [(suncorp, ''Suncorp''), (kiwibank, ''Kiwibank'')] [jane, john]) = 3"
proof -
  have cleaned: "clean_company_names re_sub_ascii [suncorp, kiwibank] =
      Inr [(suncorp, ''Suncorp''), (kiwibank, ''Kiwibank'')]"
    by code_simp
  have no: "\<forall>e \<in> set [jane, john]. exec_company_id e \<noteq> company_id kiwibank"
    by (simp add: jane_def john_def kiwibank_def)
  have jane_suncorp: "exec_company_id jane = company_id suncorp"
    by (simp add: jane_def suncorp_def)
  have john_suncorp: "exec_company_id john = company_id suncorp"
    by (simp add: john_def suncorp_def)
  have jane_other: "exec_company_id jane \<noteq> company_id kiwibank"
    by (simp add: jane_def kiwibank_def)
  have john_other: "exec_company_id john \<noteq> company_id kiwibank"
    by (simp add: john_def kiwibank_def)
  have ids: "distinct (map company_id [suncorp, kiwibank])"
    by (simp add: suncorp_def kiwibank_def)
  have rows: "merged_sorted sort_values_stable
       [(suncorp, ''Suncorp''), (kiwibank, ''Kiwibank'')] [jane, john] =
     [\<lparr>entity = suncorp, clean_company_name = ''Suncorp'', contact = Some jane\<rparr>,
      \<lparr>entity = suncorp, clean_company_name = ''Suncorp'', contact = Some john\<rparr>,
      \<lparr>entity = kiwibank, clean_company_name = ''Kiwibank'', contact = None\<rparr>]"
    by (simp add: merged_sorted_def merge_left_def suncorp_def kiwibank_def jane_def john_def)
  have mem: "kiwibank \<in> set [suncorp, kiwibank]" by simp
  note join = left_outer_join [OF mset_sort_values_stable cleaned,
      where executives_df = "[jane, john]" and to_datetime = to_datetime_iso
        and today = "''2024-06-01''"]
  have one: "length (filter (\<lambda>m. company_id (entity m) = company_id kiwibank)
             (merged_sorted sort_values_stable
                [(suncorp, ''Suncorp''), (kiwibank, ''Kiwibank'')] [jane, john])) = 1"
    by (rule join [THEN conjunct2, THEN conjunct1, THEN bspec, OF mem, THEN mp, OF no,
          THEN conjunct2, THEN conjunct1, THEN mp, OF ids])
  have "length (merged_sorted sort_values_stable
             [(suncorp, ''Suncorp''), (kiwibank, ''Kiwibank'')] [jane, john]) =
       sum_list (map (\<lambda>c. max 1 (length (filter (\<lambda>e. exec_company_id e = company_id c)
                                             [jane, john]))) [suncorp, kiwibank])"
    by (rule join [THEN conjunct2, THEN conjunct2, THEN conjunct2, THEN conjunct2,
          THEN conjunct2])
  then have three: "length (merged_sorted sort_values_stable
             [(suncorp, ''Suncorp''), (kiwibank, ''Kiwibank'')] [jane, john]) = 3"
    by (simp add: jane_def john_def suncorp_def kiwibank_def)
  show ?thesis
    by (intro conjI cleaned jane_suncorp john_suncorp jane_other john_other ids rows one three)
qed

lemma clean_company_names_error:
  "clean_company_names re_sub companies = Inl e \<Longrightarrow>
   e = TypeError ''expected string or bytes-like object''"
  by (induction companies) (auto simp add: clean_name_def split: sum.splits option.splits)

lemma prepare_final_dataset_error:
  assumes "prepare_final_dataset re_sub sort_values to_datetime today companies_df executives_df = Inl e"
  shows "e = TypeError ''expected string or bytes-like object''"
proof (cases "clean_company_names re_sub companies_df")
  case (Inl a)
  with assms have "a = e" by (simp add: prepare_final_dataset_def)
  with Inl clean_company_names_error show ?thesis by blast
next
  case (Inr b)
  with assms show ?thesis by (simp add: prepare_final_dataset_def Let_def)
qed

text \<open>
  C8, as stated: a failure while the final table is built would also be written to a log
  file. Here the name cell of one company is empty, \<open>prepare_final_dataset\<close> raises
  \<open>TypeError\<close>, and \<open>main\<close> prints the message and the stack trace and returns; no file
  is written.
\<close>

theorem consolidation_failure_writes_no_log:
  "prepare_final_dataset re_sub_ascii sort_values_stable to_datetime_iso ''2024-06-01''
     [suncorp, nameless] [jane] = Inl (TypeError ''expected string or bytes-like object'') \<and>
   consolidation_main re_sub_ascii sort_values_stable sort_scores_stable to_datetime_iso
     ''2024-06-01'' workbook_ok (Some ([suncorp, nameless], [jane])) =
     ([Print ''Starting data consolidation process...'',
       Print ''Error in data consolidation: expected string or bytes-like object'',
       Print_traceback (TypeError ''expected string or bytes-like object'')], None) \<and>
   \<not> list_ex is_file_write
       (fst (consolidation_main re_sub_ascii sort_values_stable sort_scores_stable
               to_datetime_iso ''2024-06-01'' workbook_ok (Some ([suncorp, nameless], [jane]))))"
proof -
  have raised: "prepare_final_dataset re_sub_ascii sort_values_stable to_datetime_iso
     ''2024-06-01'' [suncorp, nameless] [jane] =
     Inl (TypeError ''expected string or bytes-like object'')"
    by code_simp
  have events: "consolidation_main re_sub_ascii sort_values_stable sort_scores_stable
     to_datetime_iso ''2024-06-01'' workbook_ok (Some ([suncorp, nameless], [jane])) =
     ([Print ''Starting data consolidation process...'',
       Print ''Error in data consolidation: expected string or bytes-like object'',
       Print_traceback (TypeError ''expected string or bytes-like object'')], None)"
    by code_simp
  show ?thesis unfolding events using raised by (simp add: is_file_write_def)
qed

text \<open>
  C8, amended. When \<open>prepare_final_dataset\<close> raises, the Consolidator's \<open>main\<close> catches
  the exception and returns normally after printing the start line, the line
  \<open>Error in data consolidation: ...\<close> with the message, and the stack trace; it writes
  no file.
\<close>

theorem consolidation_failure_caught:
  assumes "prepare_final_dataset re_sub sort_values to_datetime today
             companies_df executives_df = Inl e"
  shows "consolidation_main re_sub sort_values sort_scores to_datetime today build_workbook
           (Some (companies_df, executives_df)) =
         ([Print ''Starting data consolidation process...'',
           Print (''Error in data consolidation: '' @ exn_message e),
           Print_traceback e], None) \<and>
         \<not> list_ex is_file_write
             (fst (consolidation_main re_sub sort_values sort_scores to_datetime today
                     build_workbook (Some (companies_df, executives_df))))"
proof -
  have e: "e = TypeError ''expected string or bytes-like object''"
    using prepare_final_dataset_error [OF assms] .
  have "consolidation_main re_sub sort_values sort_scores to_datetime today build_workbook
           (Some (companies_df, executives_df)) =
         ([Print ''Starting data consolidation process...'',
           Print (''Error in data consolidation: '' @ exn_message e),
           Print_traceback e], None)"
    using assms unfolding e
    by (simp add: consolidation_main_def consolidation_handler_def Let_def)
  then show ?thesis by (simp add: is_file_write_def)
qed

theorem consolidation_failure_caught_witness:
  "prepare_final_dataset re_sub_ascii sort_values_stable to_datetime_iso ''2024-06-01''
     [suncorp, nameless] [jane] = Inl (TypeError ''expected string or bytes-like object'') \<and>
   snd (consolidation_main re_sub_ascii sort_values_stable sort_scores_stable to_datetime_iso
     ''2024-06-01'' workbook_ok (Some ([suncorp, nameless], [jane]))) = None \<and>
   fst (consolidation_main re_sub_ascii sort_values_stable sort_scores_stable to_datetime_iso
     ''2024-06-01'' workbook_ok (Some ([suncorp, nameless], [jane]))) =
     [Print ''Starting data consolidation process...'',
      Print ''Error in data consolidation: expected string or bytes-like object'',
      Print_traceback (TypeError ''expected string or bytes-like object'')]"
proof -
  have raised: "prepare_final_dataset re_sub_ascii sort_values_stable to_datetime_iso
     ''2024-06-01'' [suncorp, nameless] [jane] =
     Inl (TypeError ''expected string or bytes-like object'')"
    by code_simp
  show ?thesis
    using raised consolidation_failure_caught [OF raised,
        where sort_scores = sort_scores_stable and build_workbook = workbook_ok]
    by (simp add: exn_message_def)
qed










end
